theory Spec2Isabelle
  imports Complex_Main
begin

section \<open>Values and errors\<close>

text \<open>
  Every \<open>raise\<close> of the source is a value \<open>Inl e\<close> of a sum type. A \<open>ValueError\<close> raised by
  an f-string message is kept as the literal text of the message up to the interpolated
  value, followed by that value. The numbers a caller passes in are finite floats and are
  modelled as real numbers.
\<close>

datatype pyvalue = FloatVal real | StrVal string

datatype error =
    ValueError string pyvalue
  | ZeroDivisionError
  | OverflowError
  | NegativeDimensions
  | IndexError
  | EmptySequence

section \<open>Strings: \<open>str.lower\<close> and \<open>str.strip\<close>\<close>

text \<open>
  \<open>lower\<close> maps the letters \<open>A\<close> to \<open>Z\<close> to \<open>a\<close> to \<open>z\<close> and leaves every other
  character alone; \<open>strip\<close> drops leading and trailing white space. Strings are byte
  strings: no character outside ASCII has a lowercase form made of the letters of
  \<open>call\<close> or \<open>put\<close>, so the membership test of the validation comes out as in Python.
\<close>

definition lower_char :: "char \<Rightarrow> char" where
  "lower_char c =
     (let n = (of_char c :: nat)
      in if 65 \<le> n \<and> n \<le> 90 then char_of (n + 32) else c)"

definition lower :: "string \<Rightarrow> string" where
  "lower s = map lower_char s"

definition is_space :: "char \<Rightarrow> bool" where
  "is_space c = ((of_char c :: nat) \<in> {9, 10, 11, 12, 13, 28, 29, 30, 31, 32})"

definition strip :: "string \<Rightarrow> string" where
  "strip s = rev (dropWhile is_space (rev (dropWhile is_space s)))"

section \<open>\<open>models/base_model.py\<close>: the shared validation\<close>

text \<open>
  \<open>OptionPricingModel.validate_inputs\<close>: six checks in the order of the source, each
  raising \<open>ValueError\<close> with its own message and the offending value.
\<close>

definition validate_inputs ::
  "real \<Rightarrow> real \<Rightarrow> real \<Rightarrow> real \<Rightarrow> real \<Rightarrow> string \<Rightarrow> error + bool" where
  "validate_inputs spot strike time_to_maturity risk_free_rate volatility option_type =
     (if spot \<le> 0 then
        Inl (ValueError ''Spot price must be positive. Got: '' (FloatVal spot))
      else if strike \<le> 0 then
        Inl (ValueError ''Strike price must be positive. Got: '' (FloatVal strike))
      else if time_to_maturity \<le> 0 then
        Inl (ValueError ''Time to maturity must be positive. Got: '' (FloatVal time_to_maturity))
      else if volatility \<le> 0 then
        Inl (ValueError ''Volatility must be positive. Got: '' (FloatVal volatility))
      else if risk_free_rate < - 0.1 \<or> risk_free_rate > 0.5 then
        Inl (ValueError ''Risk-free rate must be between -0.1 and 0.5. Got: ''
               (FloatVal risk_free_rate))
      else if lower option_type \<notin> set [''call'', ''put''] then
        Inl (ValueError ''Option type must be 'call' or 'put'. Got: '' (StrVal option_type))
      else Inr True)"

definition get_option_type :: "string \<Rightarrow> string" where
  "get_option_type option_type = strip (lower option_type)"

section \<open>Floating-point values\<close>

text \<open>
  The pricers compute with IEEE doubles, Python's \<open>float\<close> and numpy's \<open>float64\<close>. A
  computed value is a finite number, an infinity or \<open>nan\<close>. The arithmetic of finite
  values is modelled as exact: rounding, the flush of tiny results to zero and the sign
  of zero are not tracked. What is tracked is overflow: a result whose magnitude reaches
  \<open>float_overflow = 2^1024 - 2^970\<close>, the least magnitude that rounds to an infinity,
  becomes that infinity in numpy's operations and in Python's \<open>+\<close>, \<open>-\<close>, \<open>*\<close> and \<open>/\<close>,
  and raises \<open>OverflowError\<close> in Python's \<open>**\<close>; and the infinities and \<open>nan\<close> propagate
  as IEEE 754 prescribes.
\<close>

datatype pyfloat = Fin real | PInf | NInf | NaN

definition float_overflow :: real where
  "float_overflow = 2 ^ 1024 - 2 ^ 970"

definition float_of :: "real \<Rightarrow> pyfloat" where
  "float_of x =
     (if float_overflow \<le> x then PInf else if x \<le> - float_overflow then NInf else Fin x)"

text \<open>The infinity of a given sign; no sign means \<open>0 * inf\<close> or \<open>0 / 0\<close>, which is \<open>nan\<close>.\<close>

definition signed_inf :: "real \<Rightarrow> pyfloat" where
  "signed_inf s = (if 0 < s then PInf else if s < 0 then NInf else NaN)"

fun fl_sign :: "pyfloat \<Rightarrow> real" where
  "fl_sign (Fin a) = sgn a"
| "fl_sign PInf = 1"
| "fl_sign NInf = - 1"
| "fl_sign NaN = 0"

fun fl_neg :: "pyfloat \<Rightarrow> pyfloat" where
  "fl_neg (Fin a) = Fin (- a)"
| "fl_neg PInf = NInf"
| "fl_neg NInf = PInf"
| "fl_neg NaN = NaN"

fun fl_add :: "pyfloat \<Rightarrow> pyfloat \<Rightarrow> pyfloat" where
  "fl_add (Fin a) (Fin b) = float_of (a + b)"
| "fl_add NaN y = NaN"
| "fl_add x NaN = NaN"
| "fl_add PInf NInf = NaN"
| "fl_add NInf PInf = NaN"
| "fl_add PInf y = PInf"
| "fl_add x PInf = PInf"
| "fl_add NInf y = NInf"
| "fl_add x NInf = NInf"

definition fl_sub :: "pyfloat \<Rightarrow> pyfloat \<Rightarrow> pyfloat" where
  "fl_sub x y = fl_add x (fl_neg y)"

fun fl_mul :: "pyfloat \<Rightarrow> pyfloat \<Rightarrow> pyfloat" where
  "fl_mul (Fin a) (Fin b) = float_of (a * b)"
| "fl_mul NaN y = NaN"
| "fl_mul x NaN = NaN"
| "fl_mul x y = signed_inf (fl_sign x * fl_sign y)"

text \<open>
  Division as numpy does it, and as Python does it for a divisor that is not zero: a
  zero divisor gives an infinity or \<open>nan\<close>.
\<close>

fun fl_div :: "pyfloat \<Rightarrow> pyfloat \<Rightarrow> pyfloat" where
  "fl_div (Fin a) (Fin b) = (if b = 0 then signed_inf a else float_of (a / b))"
| "fl_div NaN y = NaN"
| "fl_div x NaN = NaN"
| "fl_div (Fin a) y = Fin 0"
| "fl_div x (Fin b) = signed_inf (fl_sign x * (if b < 0 then - 1 else 1))"
| "fl_div x y = NaN"

text \<open>Python's \<open>a / b\<close> on two floats raises on a zero divisor.\<close>

definition py_div :: "real \<Rightarrow> real \<Rightarrow> error + pyfloat" where
  "py_div a b = (if b = 0 then Inl ZeroDivisionError else Inr (float_of (a / b)))"

text \<open>Python's \<open>a ** k\<close> on a float raises when the result is out of range.\<close>

definition py_pow :: "real \<Rightarrow> nat \<Rightarrow> error + pyfloat" where
  "py_pow a k = (if float_overflow \<le> \<bar>a ^ k\<bar> then Inl OverflowError else Inr (Fin (a ^ k)))"

text \<open>numpy's \<open>x ** k\<close> for an exponent \<open>k \<ge> 0\<close>; \<open>x ** 0\<close> is \<open>1\<close> for every \<open>x\<close>.\<close>

fun fl_pow :: "pyfloat \<Rightarrow> nat \<Rightarrow> pyfloat" where
  "fl_pow x 0 = Fin 1"
| "fl_pow (Fin a) (Suc k) = float_of (a ^ Suc k)"
| "fl_pow PInf (Suc k) = PInf"
| "fl_pow NInf (Suc k) = (if even (Suc k) then PInf else NInf)"
| "fl_pow NaN (Suc k) = NaN"

fun fl_exp :: "pyfloat \<Rightarrow> pyfloat" where
  "fl_exp (Fin a) = float_of (exp a)"
| "fl_exp PInf = PInf"
| "fl_exp NInf = Fin 0"
| "fl_exp NaN = NaN"

fun fl_log :: "pyfloat \<Rightarrow> pyfloat" where
  "fl_log (Fin a) = (if 0 < a then Fin (ln a) else if a = 0 then NInf else NaN)"
| "fl_log PInf = PInf"
| "fl_log NInf = NaN"
| "fl_log NaN = NaN"

fun fl_sqrt :: "pyfloat \<Rightarrow> pyfloat" where
  "fl_sqrt (Fin a) = (if 0 \<le> a then Fin (sqrt a) else NaN)"
| "fl_sqrt PInf = PInf"
| "fl_sqrt NInf = NaN"
| "fl_sqrt NaN = NaN"

text \<open>Comparisons: every comparison with \<open>nan\<close> is false.\<close>

fun fl_less :: "pyfloat \<Rightarrow> pyfloat \<Rightarrow> bool" where
  "fl_less (Fin a) (Fin b) = (a < b)"
| "fl_less NaN y = False"
| "fl_less x NaN = False"
| "fl_less x NInf = False"
| "fl_less PInf y = False"
| "fl_less x y = True"

fun fl_le :: "pyfloat \<Rightarrow> pyfloat \<Rightarrow> bool" where
  "fl_le (Fin a) (Fin b) = (a \<le> b)"
| "fl_le NaN y = False"
| "fl_le x NaN = False"
| "fl_le NInf y = True"
| "fl_le x PInf = True"
| "fl_le x y = False"

text \<open>
  Python's \<open>max(0, x)\<close> returns \<open>x\<close> when \<open>x > 0\<close> and the first argument otherwise, so
  \<open>max(0, nan)\<close> is \<open>0\<close>; numpy's \<open>np.maximum\<close> returns \<open>nan\<close> when either argument is.
\<close>

definition py_max0 :: "pyfloat \<Rightarrow> pyfloat" where
  "py_max0 x = (if fl_less (Fin 0) x then x else Fin 0)"

fun np_maximum :: "pyfloat \<Rightarrow> pyfloat \<Rightarrow> pyfloat" where
  "np_maximum NaN y = NaN"
| "np_maximum x NaN = NaN"
| "np_maximum x y = (if fl_less x y then y else x)"

text \<open>
  \<open>np.mean\<close> and \<open>np.std\<close> of a one-dimensional array. The mean of an empty array is
  \<open>0 / 0\<close>, which is \<open>nan\<close>. The sum is taken from left to right.
\<close>

definition np_mean :: "pyfloat list \<Rightarrow> pyfloat" where
  "np_mean xs = fl_div (foldl fl_add (Fin 0) xs) (Fin (real (length xs)))"

definition np_std :: "pyfloat list \<Rightarrow> pyfloat" where
  "np_std xs =
     (let m = np_mean xs
      in fl_sqrt (np_mean (map (\<lambda>x. fl_mul (fl_sub x m) (fl_sub x m)) xs)))"

section \<open>The standard normal distribution\<close>

text \<open>
  Modelled from the spec: \<open>scipy.stats.norm\<close> is a library outside the repository. The
  spec calls \<open>\<Phi>\<close> the standard normal CDF and \<open>\<phi>\<close> the standard normal PDF; \<open>norm_pdf\<close> is
  the density \<open>exp (- x\<^sup>2 / 2) / sqrt (2 pi)\<close> and \<open>norm_cdf\<close> is one half plus the integral of
  the density from \<open>0\<close> to \<open>x\<close>, written as its everywhere convergent Maclaurin series
  (\<open>norm_cdf_deriv\<close> and \<open>norm_cdf_zero\<close> below: its derivative is \<open>norm_pdf\<close> and its
  value at \<open>0\<close> is one half). \<open>fl_cdf\<close> and \<open>fl_pdf\<close> extend them to the infinities and
  \<open>nan\<close> as scipy does.
\<close>

definition norm_pdf :: "real \<Rightarrow> real" where
  "norm_pdf x = exp (- (x\<^sup>2) / 2) / sqrt (2 * pi)"

definition cdf_term :: "real \<Rightarrow> nat \<Rightarrow> real" where
  "cdf_term x n = (- 1) ^ n * x ^ (2 * n + 1) / (2 ^ n * fact n * real (2 * n + 1))"

definition norm_cdf :: "real \<Rightarrow> real" where
  "norm_cdf x = 1 / 2 + (\<Sum>n. cdf_term x n) / sqrt (2 * pi)"

fun fl_cdf :: "pyfloat \<Rightarrow> pyfloat" where
  "fl_cdf (Fin a) = Fin (norm_cdf a)"
| "fl_cdf PInf = Fin 1"
| "fl_cdf NInf = Fin 0"
| "fl_cdf NaN = NaN"

fun fl_pdf :: "pyfloat \<Rightarrow> pyfloat" where
  "fl_pdf (Fin a) = Fin (norm_pdf a)"
| "fl_pdf PInf = Fin 0"
| "fl_pdf NInf = Fin 0"
| "fl_pdf NaN = NaN"

section \<open>\<open>models/black_scholes.py\<close>\<close>

text \<open>
  \<open>_calculate_d1\<close>. The operands \<open>spot\<close>, \<open>strike\<close>, \<open>risk_free_rate\<close>, \<open>volatility\<close> and
  \<open>time_to_maturity\<close> are Python floats, so \<open>spot / strike\<close> is Python's division and
  \<open>volatility ** 2\<close> is Python's power, which raises \<open>OverflowError\<close>; the left operand
  of the sum is evaluated first.
\<close>

definition calculate_d1 :: "real \<Rightarrow> real \<Rightarrow> real \<Rightarrow> real \<Rightarrow> real \<Rightarrow> error + pyfloat" where
  "calculate_d1 spot strike time_to_maturity risk_free_rate volatility =
     (case py_div spot strike of
        Inl e \<Rightarrow> Inl e
      | Inr moneyness \<Rightarrow>
          (case py_pow volatility 2 of
             Inl e \<Rightarrow> Inl e
           | Inr vol2 \<Rightarrow>
               (let numerator =
                      fl_add (fl_log moneyness)
                        (fl_mul (fl_add (Fin risk_free_rate) (fl_mul (Fin 0.5) vol2))
                           (Fin time_to_maturity));
                    denominator = fl_mul (Fin volatility) (fl_sqrt (Fin time_to_maturity))
                in Inr (fl_div numerator denominator))))"

definition calculate_d2 :: "pyfloat \<Rightarrow> real \<Rightarrow> real \<Rightarrow> pyfloat" where
  "calculate_d2 d1 volatility time_to_maturity =
     fl_sub d1 (fl_mul (Fin volatility) (fl_sqrt (Fin time_to_maturity)))"

definition calculate_call_price ::
  "real \<Rightarrow> real \<Rightarrow> real \<Rightarrow> real \<Rightarrow> pyfloat \<Rightarrow> pyfloat \<Rightarrow> pyfloat" where
  "calculate_call_price spot strike time_to_maturity risk_free_rate d1 d2 =
     fl_sub (fl_mul (Fin spot) (fl_cdf d1))
       (fl_mul
          (fl_mul (Fin strike) (fl_exp (fl_mul (Fin (- risk_free_rate)) (Fin time_to_maturity))))
          (fl_cdf d2))"

definition calculate_put_price ::
  "real \<Rightarrow> real \<Rightarrow> real \<Rightarrow> real \<Rightarrow> pyfloat \<Rightarrow> pyfloat \<Rightarrow> pyfloat" where
  "calculate_put_price spot strike time_to_maturity risk_free_rate d1 d2 =
     fl_sub
       (fl_mul
          (fl_mul (Fin strike) (fl_exp (fl_mul (Fin (- risk_free_rate)) (Fin time_to_maturity))))
          (fl_cdf (fl_neg d2)))
       (fl_mul (Fin spot) (fl_cdf (fl_neg d1)))"

text \<open>\<open>BlackScholesModel.calculate_price\<close>: validate, normalise the option type, price.\<close>

definition bs_calculate_price ::
  "real \<Rightarrow> real \<Rightarrow> real \<Rightarrow> real \<Rightarrow> real \<Rightarrow> string \<Rightarrow> error + pyfloat" where
  "bs_calculate_price spot strike time_to_maturity risk_free_rate volatility option_type =
     (case validate_inputs spot strike time_to_maturity risk_free_rate volatility option_type of
        Inl e \<Rightarrow> Inl e
      | Inr _ \<Rightarrow>
          (let ot = get_option_type option_type in
           case calculate_d1 spot strike time_to_maturity risk_free_rate volatility of
             Inl e \<Rightarrow> Inl e
           | Inr d1 \<Rightarrow>
               (let d2 = calculate_d2 d1 volatility time_to_maturity
                in if ot = ''call''
                   then Inr (calculate_call_price spot strike time_to_maturity risk_free_rate
                               d1 d2)
                   else Inr (calculate_put_price spot strike time_to_maturity risk_free_rate
                               d1 d2))))"

section \<open>\<open>calculations/greeks.py\<close>\<close>

text \<open>
  \<open>GreeksCalculator\<close> has its own \<open>_calculate_d1\<close>, the same code as that of the
  Black-Scholes model, and calls no validation. Its arithmetic raises in two places,
  both in \<open>_calculate_d1\<close>: Python's division \<open>spot / strike\<close> and Python's power
  \<open>volatility ** 2\<close>. Every other operation has a numpy operand and does not raise.
\<close>

definition greeks_calculate_d1 ::
  "real \<Rightarrow> real \<Rightarrow> real \<Rightarrow> real \<Rightarrow> real \<Rightarrow> error + pyfloat" where
  "greeks_calculate_d1 spot strike time_to_maturity risk_free_rate volatility =
     (case py_div spot strike of
        Inl e \<Rightarrow> Inl e
      | Inr moneyness \<Rightarrow>
          (case py_pow volatility 2 of
             Inl e \<Rightarrow> Inl e
           | Inr vol2 \<Rightarrow>
               (let numerator =
                      fl_add (fl_log moneyness)
                        (fl_mul (fl_add (Fin risk_free_rate) (fl_mul (Fin 0.5) vol2))
                           (Fin time_to_maturity));
                    denominator = fl_mul (Fin volatility) (fl_sqrt (Fin time_to_maturity))
                in Inr (fl_div numerator denominator))))"

definition delta :: "real \<Rightarrow> real \<Rightarrow> real \<Rightarrow> real \<Rightarrow> real \<Rightarrow> string \<Rightarrow> error + pyfloat" where
  "delta spot strike time_to_maturity risk_free_rate volatility option_type =
     (case greeks_calculate_d1 spot strike time_to_maturity risk_free_rate volatility of
        Inl e \<Rightarrow> Inl e
      | Inr d1 \<Rightarrow>
          if lower option_type = ''call'' then Inr (fl_cdf d1)
          else Inr (fl_sub (fl_cdf d1) (Fin 1)))"

definition gamma :: "real \<Rightarrow> real \<Rightarrow> real \<Rightarrow> real \<Rightarrow> real \<Rightarrow> error + pyfloat" where
  "gamma spot strike time_to_maturity risk_free_rate volatility =
     (case greeks_calculate_d1 spot strike time_to_maturity risk_free_rate volatility of
        Inl e \<Rightarrow> Inl e
      | Inr d1 \<Rightarrow>
          Inr (fl_div (fl_pdf d1)
                 (fl_mul (fl_mul (Fin spot) (Fin volatility)) (fl_sqrt (Fin time_to_maturity)))))"

definition theta :: "real \<Rightarrow> real \<Rightarrow> real \<Rightarrow> real \<Rightarrow> real \<Rightarrow> string \<Rightarrow> error + pyfloat" where
  "theta spot strike time_to_maturity risk_free_rate volatility option_type =
     (case greeks_calculate_d1 spot strike time_to_maturity risk_free_rate volatility of
        Inl e \<Rightarrow> Inl e
      | Inr d1 \<Rightarrow>
          (let d2 = fl_sub d1 (fl_mul (Fin volatility) (fl_sqrt (Fin time_to_maturity)));
               term1 = fl_div (fl_neg (fl_mul (fl_mul (Fin spot) (fl_pdf d1)) (Fin volatility)))
                         (fl_mul (Fin 2) (fl_sqrt (Fin time_to_maturity)));
               discounted_strike =
                 fl_mul (fl_mul (Fin risk_free_rate) (Fin strike))
                   (fl_exp (fl_mul (Fin (- risk_free_rate)) (Fin time_to_maturity)))
           in if lower option_type = ''call''
              then (let term2 = fl_mul discounted_strike (fl_cdf d2)
                    in Inr (fl_div (fl_sub term1 term2) (Fin 365)))
              else (let term2 = fl_mul discounted_strike (fl_cdf (fl_neg d2))
                    in Inr (fl_div (fl_add term1 term2) (Fin 365)))))"

definition vega :: "real \<Rightarrow> real \<Rightarrow> real \<Rightarrow> real \<Rightarrow> real \<Rightarrow> error + pyfloat" where
  "vega spot strike time_to_maturity risk_free_rate volatility =
     (case greeks_calculate_d1 spot strike time_to_maturity risk_free_rate volatility of
        Inl e \<Rightarrow> Inl e
      | Inr d1 \<Rightarrow>
          Inr (fl_div (fl_mul (fl_mul (Fin spot) (fl_pdf d1)) (fl_sqrt (Fin time_to_maturity)))
                 (Fin 100)))"

definition rho :: "real \<Rightarrow> real \<Rightarrow> real \<Rightarrow> real \<Rightarrow> real \<Rightarrow> string \<Rightarrow> error + pyfloat" where
  "rho spot strike time_to_maturity risk_free_rate volatility option_type =
     (case greeks_calculate_d1 spot strike time_to_maturity risk_free_rate volatility of
        Inl e \<Rightarrow> Inl e
      | Inr d1 \<Rightarrow>
          (let d2 = fl_sub d1 (fl_mul (Fin volatility) (fl_sqrt (Fin time_to_maturity)));
               discount = fl_exp (fl_mul (Fin (- risk_free_rate)) (Fin time_to_maturity))
           in if lower option_type = ''call''
              then Inr (fl_div
                          (fl_mul (fl_mul (fl_mul (Fin strike) (Fin time_to_maturity)) discount)
                             (fl_cdf d2))
                          (Fin 100))
              else Inr (fl_div
                          (fl_mul
                             (fl_mul (fl_mul (Fin (- strike)) (Fin time_to_maturity)) discount)
                             (fl_cdf (fl_neg d2)))
                          (Fin 100))))"

record greeks =
  Delta :: pyfloat
  Gamma :: pyfloat
  Theta :: pyfloat
  Vega :: pyfloat
  Rho :: pyfloat

text \<open>
  \<open>calculate_all_greeks\<close> builds the dictionary entry by entry, so the first exception
  (that of \<open>delta\<close>) is the one that escapes.
\<close>

definition calculate_all_greeks ::
  "real \<Rightarrow> real \<Rightarrow> real \<Rightarrow> real \<Rightarrow> real \<Rightarrow> string \<Rightarrow> error + greeks" where
  "calculate_all_greeks spot strike time_to_maturity risk_free_rate volatility option_type =
     (case delta spot strike time_to_maturity risk_free_rate volatility option_type of
        Inl e \<Rightarrow> Inl e
      | Inr dl \<Rightarrow>
     (case gamma spot strike time_to_maturity risk_free_rate volatility of
        Inl e \<Rightarrow> Inl e
      | Inr gm \<Rightarrow>
     (case theta spot strike time_to_maturity risk_free_rate volatility option_type of
        Inl e \<Rightarrow> Inl e
      | Inr th \<Rightarrow>
     (case vega spot strike time_to_maturity risk_free_rate volatility of
        Inl e \<Rightarrow> Inl e
      | Inr vg \<Rightarrow>
     (case rho spot strike time_to_maturity risk_free_rate volatility option_type of
        Inl e \<Rightarrow> Inl e
      | Inr rh \<Rightarrow>
          Inr \<lparr>Delta = dl, Gamma = gm, Theta = th, Vega = vg, Rho = rh\<rparr>)))))"

section \<open>\<open>models/monte_carlo.py\<close>\<close>

text \<open>
  numpy's global random generator is outside the repository, so it is a parameter of the
  model: a state type \<open>'g\<close>, \<open>seed_rng\<close> for \<open>np.random.seed\<close> and \<open>standard_normal\<close>
  for one draw of \<open>np.random.standard_normal\<close>, a finite number, returning the advanced
  state. Every operation that draws takes the state of the global generator and returns
  the new one.
\<close>

record MonteCarloModel =
  mc_num_simulations :: int
  mc_num_steps :: int
  mc_seed :: "int option"
  mc_antithetic :: bool

text \<open>\<open>MonteCarloModel.__init__\<close>: the global generator is reseeded only when a seed is given.\<close>

definition mc_init :: "(int \<Rightarrow> 'g) \<Rightarrow> MonteCarloModel \<Rightarrow> 'g \<Rightarrow> 'g" where
  "mc_init seed_rng m g = (case mc_seed m of None \<Rightarrow> g | Some s \<Rightarrow> seed_rng s)"

fun draw_row :: "('g \<Rightarrow> real \<times> 'g) \<Rightarrow> nat \<Rightarrow> 'g \<Rightarrow> real list \<times> 'g" where
  "draw_row standard_normal 0 g = ([], g)"
| "draw_row standard_normal (Suc k) g =
     (case standard_normal g of (z, g') \<Rightarrow>
        (case draw_row standard_normal k g' of (zs, g'') \<Rightarrow> (z # zs, g'')))"

text \<open>\<open>standard_normal((rows, cols))\<close> fills the matrix row by row.\<close>

fun draw_matrix :: "('g \<Rightarrow> real \<times> 'g) \<Rightarrow> nat \<Rightarrow> nat \<Rightarrow> 'g \<Rightarrow> real list list \<times> 'g" where
  "draw_matrix standard_normal 0 cols g = ([], g)"
| "draw_matrix standard_normal (Suc rows) cols g =
     (case draw_row standard_normal cols g of (r, g') \<Rightarrow>
        (case draw_matrix standard_normal rows cols g' of (rs, g'') \<Rightarrow> (r # rs, g'')))"

text \<open>One time step of every path: \<open>price_paths[t] = price_paths[t-1] * exp(drift + diffusion * Z)\<close>.\<close>

definition gbm_step :: "pyfloat \<Rightarrow> pyfloat \<Rightarrow> real list \<Rightarrow> pyfloat list \<Rightarrow> pyfloat list" where
  "gbm_step drift diffusion zs prices =
     map (\<lambda>(s, z). fl_mul s (fl_exp (fl_add drift (fl_mul diffusion (Fin z))))) (zip prices zs)"

text \<open>
  \<open>MonteCarloModel.calculate_price\<close>. The division \<open>time_to_maturity / num_steps\<close> raises
  on a zero step count and numpy refuses a negative dimension. The random numbers are
  drawn before the drift is computed, so the \<open>OverflowError\<close> of \<open>volatility**2\<close> leaves
  the generator advanced. With no path at all the mean of the payoffs is \<open>nan\<close>, and
  \<open>nan\<close> is the price returned.
\<close>

definition mc_calculate_price ::
  "('g \<Rightarrow> real \<times> 'g) \<Rightarrow> MonteCarloModel \<Rightarrow>
     real \<Rightarrow> real \<Rightarrow> real \<Rightarrow> real \<Rightarrow> real \<Rightarrow> string \<Rightarrow> 'g \<Rightarrow> (error + pyfloat) \<times> 'g" where
  "mc_calculate_price standard_normal m
       spot strike time_to_maturity risk_free_rate volatility option_type g =
     (case validate_inputs spot strike time_to_maturity risk_free_rate volatility option_type of
        Inl e \<Rightarrow> (Inl e, g)
      | Inr _ \<Rightarrow>
          (let ot = get_option_type option_type in
           case py_div time_to_maturity (real_of_int (mc_num_steps m)) of
             Inl e \<Rightarrow> (Inl e, g)
           | Inr dt \<Rightarrow>
             (let num_sims = (if mc_antithetic m then mc_num_simulations m div 2
                              else mc_num_simulations m)
              in if mc_num_steps m < 0 \<or> num_sims < 0 then (Inl NegativeDimensions, g)
                 else
                   (case draw_matrix standard_normal (nat (mc_num_steps m)) (nat num_sims) g of
                      (drawn, g') \<Rightarrow>
                        (let random_numbers =
                               (if mc_antithetic m then map (\<lambda>row. row @ map uminus row) drawn
                                else drawn);
                             paths = (if mc_antithetic m then 2 * nat num_sims else nat num_sims)
                         in case py_pow volatility 2 of
                              Inl e \<Rightarrow> (Inl e, g')
                            | Inr vol2 \<Rightarrow>
                                (let drift = fl_mul (fl_sub (Fin risk_free_rate)
                                                       (fl_mul (Fin 0.5) vol2)) dt;
                                     diffusion = fl_mul (Fin volatility) (fl_sqrt dt);
                                     final_prices =
                                       fold (gbm_step drift diffusion) random_numbers
                                         (replicate paths (Fin spot));
                                     payoffs =
                                       (if ot = ''call''
                                        then map (\<lambda>s. np_maximum (fl_sub s (Fin strike)) (Fin 0))
                                               final_prices
                                        else map (\<lambda>s. np_maximum (fl_sub (Fin strike) s) (Fin 0))
                                               final_prices)
                                 in (Inr (fl_mul
                                            (fl_exp (fl_mul (Fin (- risk_free_rate))
                                                       (Fin time_to_maturity)))
                                            (np_mean payoffs)),
                                     g')))))))"

record ConfidenceResult =
  price :: pyfloat
  std_error :: pyfloat
  lower_bound :: pyfloat
  upper_bound :: pyfloat
  confidence_level :: real

text \<open>
  The batch loop of \<open>calculate_price_with_confidence\<close>: each batch prices with
  \<open>num_simulations\<close> set to the batch size and continues the random stream of the one
  before. A batch price that is \<open>nan\<close> is a price like any other and the loop goes on;
  an exception in a batch ends the loop and escapes.
\<close>

fun run_batches ::
  "('g \<Rightarrow> real \<times> 'g) \<Rightarrow> MonteCarloModel \<Rightarrow> int \<Rightarrow>
     real \<Rightarrow> real \<Rightarrow> real \<Rightarrow> real \<Rightarrow> real \<Rightarrow> string \<Rightarrow> nat \<Rightarrow> 'g \<Rightarrow>
     (error + pyfloat list) \<times> 'g" where
  "run_batches standard_normal m batch_size
       spot strike time_to_maturity risk_free_rate volatility option_type 0 g = (Inr [], g)"
| "run_batches standard_normal m batch_size
       spot strike time_to_maturity risk_free_rate volatility option_type (Suc k) g =
     (case mc_calculate_price standard_normal (m\<lparr>mc_num_simulations := batch_size\<rparr>)
             spot strike time_to_maturity risk_free_rate volatility option_type g of
        (Inl e, g') \<Rightarrow> (Inl e, g')
      | (Inr p, g') \<Rightarrow>
          (case run_batches standard_normal m batch_size
                  spot strike time_to_maturity risk_free_rate volatility option_type k g' of
             (Inl e, g'') \<Rightarrow> (Inl e, g'')
           | (Inr ps, g'') \<Rightarrow> (Inr (p # ps), g'')))"

text \<open>
  \<open>calculate_price_with_confidence\<close>; \<open>ppf\<close> stands for \<open>scipy.stats.norm.ppf\<close>, the
  quantile function of the standard normal distribution, which is outside the repository.
\<close>

definition mc_calculate_price_with_confidence ::
  "(pyfloat \<Rightarrow> pyfloat) \<Rightarrow> ('g \<Rightarrow> real \<times> 'g) \<Rightarrow> MonteCarloModel \<Rightarrow>
     real \<Rightarrow> real \<Rightarrow> real \<Rightarrow> real \<Rightarrow> real \<Rightarrow> string \<Rightarrow> real \<Rightarrow> 'g \<Rightarrow>
     (error + ConfidenceResult) \<times> 'g" where
  "mc_calculate_price_with_confidence ppf standard_normal m
       spot strike time_to_maturity risk_free_rate volatility option_type conf g =
     (let num_batches = 10;
          batch_size = mc_num_simulations m div 10
      in case run_batches standard_normal m batch_size
                spot strike time_to_maturity risk_free_rate volatility option_type num_batches g of
           (Inl e, g') \<Rightarrow> (Inl e, g')
         | (Inr batch_prices, g') \<Rightarrow>
             (let mean_price = np_mean batch_prices;
                  std_err = fl_div (np_std batch_prices) (fl_sqrt (Fin (real num_batches)));
                  z_score = ppf (fl_div (fl_add (Fin 1) (Fin conf)) (Fin 2));
                  margin = fl_mul z_score std_err
              in (Inr \<lparr>price = mean_price, std_error = std_err,
                        lower_bound = fl_sub mean_price margin,
                        upper_bound = fl_add mean_price margin,
                        confidence_level = conf\<rparr>, g')))"

section \<open>\<open>models/binomial_tree.py\<close>\<close>

record BinomialTreeModel =
  bt_num_steps :: int
  bt_american :: bool

record lattice =
  lat_u :: pyfloat
  lat_d :: pyfloat
  lat_p :: pyfloat
  lat_discount :: pyfloat

text \<open>
  The Cox-Ross-Rubinstein parameters for \<open>n \<ge> 1\<close> steps. \<open>np.exp\<close> overflows to
  infinity; \<open>1 / u\<close> has a numpy operand and does not raise.
\<close>

definition crr :: "real \<Rightarrow> real \<Rightarrow> real \<Rightarrow> nat \<Rightarrow> lattice" where
  "crr time_to_maturity risk_free_rate volatility n =
     (let dt = fl_div (Fin time_to_maturity) (Fin (real n));
          u = fl_exp (fl_mul (Fin volatility) (fl_sqrt dt));
          d = fl_div (Fin 1) u;
          p = fl_div (fl_sub (fl_exp (fl_mul (Fin risk_free_rate) dt)) d) (fl_sub u d);
          discount = fl_exp (fl_mul (Fin (- risk_free_rate)) dt)
      in \<lparr>lat_u = u, lat_d = d, lat_p = p, lat_discount = discount\<rparr>)"

text \<open>\<open>price_tree[i][j] = spot * (u ** j) * (d ** (i - j))\<close>, for \<open>j \<le> i\<close>.\<close>

definition price_tree :: "real \<Rightarrow> lattice \<Rightarrow> nat \<Rightarrow> nat \<Rightarrow> pyfloat" where
  "price_tree spot L i j =
     fl_mul (fl_mul (Fin spot) (fl_pow (lat_u L) j)) (fl_pow (lat_d L) (i - j))"

text \<open>\<open>max(0, price - strike)\<close> for a call and \<open>max(0, strike - price)\<close> for a put.\<close>

definition exercise_value :: "string \<Rightarrow> real \<Rightarrow> pyfloat \<Rightarrow> pyfloat" where
  "exercise_value ot strike s =
     (if ot = ''call'' then py_max0 (fl_sub s (Fin strike)) else py_max0 (fl_sub (Fin strike) s))"

definition terminal_row :: "string \<Rightarrow> real \<Rightarrow> real \<Rightarrow> lattice \<Rightarrow> nat \<Rightarrow> pyfloat list" where
  "terminal_row ot strike spot L n =
     map (\<lambda>j. exercise_value ot strike (price_tree spot L n j)) [0..<Suc n]"

definition continuation_value :: "lattice \<Rightarrow> pyfloat \<Rightarrow> pyfloat \<Rightarrow> pyfloat" where
  "continuation_value L up down =
     fl_mul (lat_discount L)
       (fl_add (fl_mul (lat_p L) up) (fl_mul (fl_sub (Fin 1) (lat_p L)) down))"

text \<open>
  The value stored at node \<open>(i, j)\<close>, from row \<open>i + 1\<close> of the option tree. The test
  \<open>exercise_value > continuation_value\<close> is false when the continuation value is \<open>nan\<close>,
  which is then the value stored.
\<close>

definition node_value ::
  "bool \<Rightarrow> string \<Rightarrow> real \<Rightarrow> real \<Rightarrow> lattice \<Rightarrow> nat \<Rightarrow> nat \<Rightarrow> pyfloat list \<Rightarrow> pyfloat" where
  "node_value american ot strike spot L i j next_row =
     (let continuation = continuation_value L (next_row ! (j + 1)) (next_row ! j)
      in if american then
           (let exercise = exercise_value ot strike (price_tree spot L i j)
            in if fl_less continuation exercise then exercise else continuation)
         else continuation)"

definition level_row ::
  "bool \<Rightarrow> string \<Rightarrow> real \<Rightarrow> real \<Rightarrow> lattice \<Rightarrow> nat \<Rightarrow> pyfloat list \<Rightarrow> pyfloat list" where
  "level_row american ot strike spot L i next_row =
     map (\<lambda>j. node_value american ot strike spot L i j next_row) [0..<Suc i]"

text \<open>
  Backward induction, \<open>for i in range(num_steps - 1, -1, -1)\<close>: the first argument counts
  the rows still to fill, the list holds the rows filled so far, row \<open>i + 1\<close> first.
\<close>

fun backward_induction ::
  "bool \<Rightarrow> string \<Rightarrow> real \<Rightarrow> real \<Rightarrow> lattice \<Rightarrow> nat \<Rightarrow> pyfloat list list \<Rightarrow> pyfloat list list" where
  "backward_induction american ot strike spot L 0 rows = rows"
| "backward_induction american ot strike spot L (Suc i) [] = []"
| "backward_induction american ot strike spot L (Suc i) (row # rows) =
     backward_induction american ot strike spot L i
       (level_row american ot strike spot L i row # row # rows)"

text \<open>The populated part of \<open>option_tree\<close>: row \<open>i\<close> has the nodes \<open>0..i\<close>.\<close>

definition option_tree ::
  "bool \<Rightarrow> string \<Rightarrow> real \<Rightarrow> real \<Rightarrow> lattice \<Rightarrow> nat \<Rightarrow> pyfloat list list" where
  "option_tree american ot strike spot L n =
     backward_induction american ot strike spot L n [terminal_row ot strike spot L n]"

text \<open>
  \<open>BinomialTreeModel.calculate_price\<close>. A zero step count raises in the division
  \<open>time_to_maturity / num_steps\<close>; with \<open>num_steps = -1\<close> the arrays are empty and the
  final \<open>option_tree[0][0]\<close> raises; below that numpy refuses the negative dimension.
  Nothing else raises: the value at the root is returned whatever it is.
\<close>

definition bt_calculate_price ::
  "BinomialTreeModel \<Rightarrow> real \<Rightarrow> real \<Rightarrow> real \<Rightarrow> real \<Rightarrow> real \<Rightarrow> string \<Rightarrow> error + pyfloat" where
  "bt_calculate_price m spot strike time_to_maturity risk_free_rate volatility option_type =
     (case validate_inputs spot strike time_to_maturity risk_free_rate volatility option_type of
        Inl e \<Rightarrow> Inl e
      | Inr _ \<Rightarrow>
          (let ot = get_option_type option_type in
           if bt_num_steps m = 0 then Inl ZeroDivisionError
           else if bt_num_steps m < - 1 then Inl NegativeDimensions
           else if bt_num_steps m = - 1 then Inl IndexError
           else
             (let n = nat (bt_num_steps m);
                  L = crr time_to_maturity risk_free_rate volatility n
              in case option_tree (bt_american m) ot strike spot L n of
                   (v # _) # _ \<Rightarrow> Inr v
                 | _ \<Rightarrow> Inl IndexError)))"


section \<open>\<open>strategies/options.py\<close>\<close>

record OptionLeg =
  leg_option_type :: string
  leg_strike :: real
  leg_position :: string
  leg_quantity :: int
  leg_premium :: real

definition payoff :: "OptionLeg \<Rightarrow> real \<Rightarrow> real" where
  "payoff leg spot =
     (let intrinsic = (if leg_option_type leg = ''call'' then max (spot - leg_strike leg) 0
                       else max (leg_strike leg - spot) 0)
      in if leg_position leg = ''long''
         then (intrinsic - leg_premium leg) * real_of_int (leg_quantity leg)
         else (leg_premium leg - intrinsic) * real_of_int (leg_quantity leg))"

record OptionStrategy =
  strat_name :: string
  strat_legs :: "OptionLeg list"

definition calculate_payoff :: "OptionStrategy \<Rightarrow> real list \<Rightarrow> real list" where
  "calculate_payoff s spot_range =
     map (\<lambda>spot. sum_list (map (\<lambda>leg. payoff leg spot) (strat_legs s))) spot_range"

text \<open>
  \<open>np.linspace(start, stop, num)\<close> for \<open>num \<ge> 2\<close>: \<open>num\<close> evenly spaced samples, the
  first \<open>start\<close> and the last \<open>stop\<close>.
\<close>

definition linspace :: "real \<Rightarrow> real \<Rightarrow> nat \<Rightarrow> real list" where
  "linspace start stop num =
     map (\<lambda>i. start + real i * ((stop - start) / real (num - 1))) [0..<num]"

text \<open>\<open>min\<close>, \<open>max\<close>, \<open>np.max\<close> and \<open>np.min\<close> raise on an empty sequence.\<close>

definition list_max :: "real list \<Rightarrow> error + real" where
  "list_max xs = (case xs of [] \<Rightarrow> Inl EmptySequence | x # rest \<Rightarrow> Inr (fold max rest x))"

definition list_min :: "real list \<Rightarrow> error + real" where
  "list_min xs = (case xs of [] \<Rightarrow> Inl EmptySequence | x # rest \<Rightarrow> Inr (fold min rest x))"

definition get_analysis_range :: "OptionStrategy \<Rightarrow> error + real list" where
  "get_analysis_range s =
     (let strikes = map leg_strike (strat_legs s) in
      case list_min strikes of
        Inl e \<Rightarrow> Inl e
      | Inr min_strike \<Rightarrow>
          (case list_max strikes of
             Inl e \<Rightarrow> Inl e
           | Inr max_strike \<Rightarrow>
               (let range_width = max_strike - min_strike;
                    start = max (min_strike - 0.5 * range_width) 0.01;
                    stop = max_strike + 0.5 * range_width
                in Inr (linspace start stop 1000))))"

definition max_profit :: "OptionStrategy \<Rightarrow> error + real" where
  "max_profit s =
     (case get_analysis_range s of
        Inl e \<Rightarrow> Inl e
      | Inr spot_range \<Rightarrow> list_max (calculate_payoff s spot_range))"

definition max_loss :: "OptionStrategy \<Rightarrow> error + real" where
  "max_loss s =
     (case get_analysis_range s of
        Inl e \<Rightarrow> Inl e
      | Inr spot_range \<Rightarrow> list_min (calculate_payoff s spot_range))"

text \<open>
  The scan of \<open>break_even_points\<close> over consecutive samples: a pair whose payoffs have a
  negative product contributes the linearly interpolated zero.
\<close>

fun crossings :: "real list \<Rightarrow> real list \<Rightarrow> real list" where
  "crossings (x0 # x1 # xs) (p0 # p1 # ps) =
     (if p0 * p1 < 0
      then (x0 - p0 * (x1 - x0) / (p1 - p0)) # crossings (x1 # xs) (p1 # ps)
      else crossings (x1 # xs) (p1 # ps))"
| "crossings xs ps = []"

definition break_even_points :: "OptionStrategy \<Rightarrow> error + real list" where
  "break_even_points s =
     (case get_analysis_range s of
        Inl e \<Rightarrow> Inl e
      | Inr spot_range \<Rightarrow> Inr (crossings spot_range (calculate_payoff s spot_range)))"


section \<open>Auxiliary definitions for the statements\<close>

text \<open>
  All three pricers raise the same error \<open>e\<close> on an input, and the Monte Carlo pricer
  does so without drawing from the generator.
\<close>

definition pricers_raise ::
  "('g \<Rightarrow> real \<times> 'g) \<Rightarrow> MonteCarloModel \<Rightarrow> BinomialTreeModel \<Rightarrow>
     real \<Rightarrow> real \<Rightarrow> real \<Rightarrow> real \<Rightarrow> real \<Rightarrow> string \<Rightarrow> 'g \<Rightarrow> error \<Rightarrow> bool" where
  "pricers_raise standard_normal mc bt
       spot strike time_to_maturity risk_free_rate volatility option_type g e =
     (bs_calculate_price spot strike time_to_maturity risk_free_rate volatility option_type = Inl e
      \<and> mc_calculate_price standard_normal mc
           spot strike time_to_maturity risk_free_rate volatility option_type g = (Inl e, g)
      \<and> bt_calculate_price bt
           spot strike time_to_maturity risk_free_rate volatility option_type = Inl e)"

text \<open>
  A generator for concrete evaluations: its state counts the draws made so far, and the
  draw in state \<open>g\<close> is the number \<open>g\<close>.
\<close>

definition counting_normal :: "nat \<Rightarrow> real \<times> nat" where
  "counting_normal g = (real g, Suc g)"

text \<open>The absolute value of the \<open>n\<close>-th term of the series of \<open>norm_cdf\<close>, for \<open>x \<ge> 0\<close>.\<close>

definition cdf_abs_term :: "real \<Rightarrow> nat \<Rightarrow> real" where
  "cdf_abs_term x n = x ^ (2 * n + 1) / (2 ^ n * fact n * real (2 * n + 1))"

text \<open>
  The analysis range in the words of the spec: from 50% below the minimum leg strike to
  50% above the maximum leg strike, sampled at 1000 points; and the maximum profit over it.
\<close>

definition spec_analysis_range :: "OptionStrategy \<Rightarrow> error + real list" where
  "spec_analysis_range s =
     (let strikes = map leg_strike (strat_legs s) in
      case list_min strikes of
        Inl e \<Rightarrow> Inl e
      | Inr min_strike \<Rightarrow>
          (case list_max strikes of
             Inl e \<Rightarrow> Inl e
           | Inr max_strike \<Rightarrow>
               Inr (linspace (min_strike - 0.5 * min_strike) (max_strike + 0.5 * max_strike) 1000)))"

definition spec_max_profit :: "OptionStrategy \<Rightarrow> error + real" where
  "spec_max_profit s =
     (case spec_analysis_range s of
        Inl e \<Rightarrow> Inl e
      | Inr spot_range \<Rightarrow> list_max (calculate_payoff s spot_range))"

text \<open>
  Two strategies for concrete evaluations: a strangle of two long puts at strike \<open>10\<close> and
  one long call at strike \<open>40\<close>, bought for nothing; and a call spread, long the
  \<open>100\<close> call for a premium of \<open>0.03\<close> and short the \<open>200\<close> call.
\<close>

definition wide_strangle :: OptionStrategy where
  "wide_strangle =
     \<lparr>strat_name = ''Long Strangle'',
      strat_legs =
        [\<lparr>leg_option_type = ''put'', leg_strike = 10, leg_position = ''long'',
          leg_quantity = 2, leg_premium = 0\<rparr>,
         \<lparr>leg_option_type = ''call'', leg_strike = 40, leg_position = ''long'',
          leg_quantity = 1, leg_premium = 0\<rparr>]\<rparr>"

definition cheap_call_spread :: OptionStrategy where
  "cheap_call_spread =
     \<lparr>strat_name = ''Bull Call Spread'',
      strat_legs =
        [\<lparr>leg_option_type = ''call'', leg_strike = 100, leg_position = ''long'',
          leg_quantity = 1, leg_premium = 3 / 100\<rparr>,
         \<lparr>leg_option_type = ''call'', leg_strike = 200, leg_position = ''short'',
          leg_quantity = 1, leg_premium = 0\<rparr>]\<rparr>"

text \<open>
  The linear interpolation of \<open>break_even_points\<close> between the samples \<open>i\<close> and \<open>i + 1\<close>.
\<close>

definition crossing_point :: "real list \<Rightarrow> real list \<Rightarrow> nat \<Rightarrow> real" where
  "crossing_point xs ps i =
     xs ! i - ps ! i * (xs ! (i + 1) - xs ! i) / (ps ! (i + 1) - ps ! i)"


section \<open>Validation\<close>

lemma lower_straddle: "lower ''straddle'' = ''straddle''"
  by code_simp

lemma lower_call: "lower ''call'' = ''call''"
  by code_simp

lemma lower_put: "lower ''put'' = ''put''"
  by code_simp

lemma strip_call: "strip ''call'' = ''call''"
  by code_simp

lemma strip_put: "strip ''put'' = ''put''"
  by code_simp

lemma pricers_raise_validate:
  "validate_inputs spot strike T r vol ot = Inl e \<Longrightarrow>
   pricers_raise sn mc bt spot strike T r vol ot g e"
  by (simp add: pricers_raise_def bs_calculate_price_def mc_calculate_price_def
      bt_calculate_price_def)

text \<open>
  C2. Each pricer's \<open>calculate_price\<close> checks, in this order, \<open>spot > 0\<close>, \<open>strike > 0\<close>,
  \<open>time_to_maturity > 0\<close>, \<open>volatility > 0\<close>, \<open>-0.1 \<le> risk_free_rate \<le> 0.5\<close> and that the
  lowercased option type is \<open>call\<close> or \<open>put\<close>. The first check that fails decides the
  error: it carries the message of that field and the value as it was passed, all three
  pricers raise the same error, and the Monte Carlo pricer has not drawn a single random
  number (its generator state is returned unchanged).
\<close>

theorem validation_order:
  "(spot \<le> 0 \<longrightarrow>
      pricers_raise sn mc bt spot strike T r vol ot g
        (ValueError ''Spot price must be positive. Got: '' (FloatVal spot)))
   \<and> (0 < spot \<and> strike \<le> 0 \<longrightarrow>
      pricers_raise sn mc bt spot strike T r vol ot g
        (ValueError ''Strike price must be positive. Got: '' (FloatVal strike)))
   \<and> (0 < spot \<and> 0 < strike \<and> T \<le> 0 \<longrightarrow>
      pricers_raise sn mc bt spot strike T r vol ot g
        (ValueError ''Time to maturity must be positive. Got: '' (FloatVal T)))
   \<and> (0 < spot \<and> 0 < strike \<and> 0 < T \<and> vol \<le> 0 \<longrightarrow>
      pricers_raise sn mc bt spot strike T r vol ot g
        (ValueError ''Volatility must be positive. Got: '' (FloatVal vol)))
   \<and> (0 < spot \<and> 0 < strike \<and> 0 < T \<and> 0 < vol \<and> (r < - 0.1 \<or> 0.5 < r) \<longrightarrow>
      pricers_raise sn mc bt spot strike T r vol ot g
        (ValueError ''Risk-free rate must be between -0.1 and 0.5. Got: '' (FloatVal r)))
   \<and> (0 < spot \<and> 0 < strike \<and> 0 < T \<and> 0 < vol \<and> - 0.1 \<le> r \<and> r \<le> 0.5
        \<and> lower ot \<noteq> ''call'' \<and> lower ot \<noteq> ''put'' \<longrightarrow>
      pricers_raise sn mc bt spot strike T r vol ot g
        (ValueError ''Option type must be 'call' or 'put'. Got: '' (StrVal ot)))"
  by (auto intro!: pricers_raise_validate simp: validate_inputs_def)

text \<open>
  The theorem at six inputs, one per check, among them \<open>spot = -1\<close> and the option type
  \<open>straddle\<close>.
\<close>

theorem validation_order_witness:
  "pricers_raise counting_normal
      \<lparr>mc_num_simulations = 100000, mc_num_steps = 252, mc_seed = Some 42, mc_antithetic = True\<rparr>
      \<lparr>bt_num_steps = 100, bt_american = False\<rparr>
      (- 1) 100 1 0.05 0.2 ''call'' 0
      (ValueError ''Spot price must be positive. Got: '' (FloatVal (- 1)))
   \<and> pricers_raise counting_normal
      \<lparr>mc_num_simulations = 100000, mc_num_steps = 252, mc_seed = Some 42, mc_antithetic = True\<rparr>
      \<lparr>bt_num_steps = 100, bt_american = False\<rparr>
      100 0 1 0.05 0.2 ''call'' 0
      (ValueError ''Strike price must be positive. Got: '' (FloatVal 0))
   \<and> pricers_raise counting_normal
      \<lparr>mc_num_simulations = 100000, mc_num_steps = 252, mc_seed = Some 42, mc_antithetic = True\<rparr>
      \<lparr>bt_num_steps = 100, bt_american = False\<rparr>
      100 100 (- 2) 0.05 0.2 ''call'' 0
      (ValueError ''Time to maturity must be positive. Got: '' (FloatVal (- 2)))
   \<and> pricers_raise counting_normal
      \<lparr>mc_num_simulations = 100000, mc_num_steps = 252, mc_seed = Some 42, mc_antithetic = True\<rparr>
      \<lparr>bt_num_steps = 100, bt_american = False\<rparr>
      100 100 1 0.05 0 ''call'' 0
      (ValueError ''Volatility must be positive. Got: '' (FloatVal 0))
   \<and> pricers_raise counting_normal
      \<lparr>mc_num_simulations = 100000, mc_num_steps = 252, mc_seed = Some 42, mc_antithetic = True\<rparr>
      \<lparr>bt_num_steps = 100, bt_american = False\<rparr>
      100 100 1 1 0.2 ''call'' 0
      (ValueError ''Risk-free rate must be between -0.1 and 0.5. Got: '' (FloatVal 1))
   \<and> pricers_raise counting_normal
      \<lparr>mc_num_simulations = 100000, mc_num_steps = 252, mc_seed = Some 42, mc_antithetic = True\<rparr>
      \<lparr>bt_num_steps = 100, bt_american = False\<rparr>
      100 100 1 0.05 0.2 ''straddle'' 0
      (ValueError ''Option type must be 'call' or 'put'. Got: '' (StrVal ''straddle''))"
  using
    validation_order [of "- 1" counting_normal
      "\<lparr>mc_num_simulations = 100000, mc_num_steps = 252, mc_seed = Some 42, mc_antithetic = True\<rparr>"
      "\<lparr>bt_num_steps = 100, bt_american = False\<rparr>" 100 1 "0.05" "0.2" "''call''" 0]
    validation_order [of 100 counting_normal
      "\<lparr>mc_num_simulations = 100000, mc_num_steps = 252, mc_seed = Some 42, mc_antithetic = True\<rparr>"
      "\<lparr>bt_num_steps = 100, bt_american = False\<rparr>" 0 1 "0.05" "0.2" "''call''" 0]
    validation_order [of 100 counting_normal
      "\<lparr>mc_num_simulations = 100000, mc_num_steps = 252, mc_seed = Some 42, mc_antithetic = True\<rparr>"
      "\<lparr>bt_num_steps = 100, bt_american = False\<rparr>" 100 "- 2" "0.05" "0.2" "''call''" 0]
    validation_order [of 100 counting_normal
      "\<lparr>mc_num_simulations = 100000, mc_num_steps = 252, mc_seed = Some 42, mc_antithetic = True\<rparr>"
      "\<lparr>bt_num_steps = 100, bt_american = False\<rparr>" 100 1 "0.05" 0 "''call''" 0]
    validation_order [of 100 counting_normal
      "\<lparr>mc_num_simulations = 100000, mc_num_steps = 252, mc_seed = Some 42, mc_antithetic = True\<rparr>"
      "\<lparr>bt_num_steps = 100, bt_american = False\<rparr>" 100 1 1 "0.2" "''call''" 0]
    validation_order [of 100 counting_normal
      "\<lparr>mc_num_simulations = 100000, mc_num_steps = 252, mc_seed = Some 42, mc_antithetic = True\<rparr>"
      "\<lparr>bt_num_steps = 100, bt_american = False\<rparr>" 100 1 "0.05" "0.2" "''straddle''" 0]
  by (simp add: lower_straddle)

lemma validate_inputs_ok:
  "0 < spot \<Longrightarrow> 0 < strike \<Longrightarrow> 0 < T \<Longrightarrow> 0 < vol \<Longrightarrow> - 0.1 \<le> r \<Longrightarrow> r \<le> 0.5 \<Longrightarrow>
   lower ot = ''call'' \<or> lower ot = ''put'' \<Longrightarrow>
   validate_inputs spot strike T r vol ot = Inr True"
  by (auto simp: validate_inputs_def)

lemma get_option_type_call: "lower ot = ''call'' \<Longrightarrow> get_option_type ot = ''call''"
  by (simp add: get_option_type_def strip_call)

lemma get_option_type_put: "lower ot = ''put'' \<Longrightarrow> get_option_type ot = ''put''"
  by (simp add: get_option_type_def strip_put)


section \<open>The normal distribution function\<close>

text \<open>The series of \<open>norm_cdf\<close> converges everywhere, and \<open>\<Phi>(-x) = 1 - \<Phi>(x)\<close>.\<close>

lemma cdf_term_abs_le: "\<bar>cdf_term x n\<bar> \<le> \<bar>x\<bar> * (inverse (fact n) * (x\<^sup>2 / 2) ^ n)"
proof -
  have "x ^ (2 * n + 1) = x * (x\<^sup>2) ^ n"
    by (simp add: power_mult)
  then have "\<bar>x ^ (2 * n + 1)\<bar> = \<bar>x\<bar> * (x\<^sup>2) ^ n"
    by (simp add: abs_mult)
  then have eq: "\<bar>cdf_term x n\<bar> = (\<bar>x\<bar> * (inverse (fact n) * (x\<^sup>2 / 2) ^ n)) / real (2 * n + 1)"
    by (simp add: cdf_term_def abs_mult power_divide divide_simps del: power_Suc)
  have "0 \<le> \<bar>x\<bar> * (inverse (fact n) * (x\<^sup>2 / 2) ^ n)"
    by simp
  moreover have gen: "a / c \<le> a" if "0 \<le> a" "1 \<le> c" for a c :: real
    using that mult_left_mono [of 1 c a] by (simp add: field_simps)
  ultimately have "(\<bar>x\<bar> * (inverse (fact n) * (x\<^sup>2 / 2) ^ n)) / real (2 * n + 1)
        \<le> \<bar>x\<bar> * (inverse (fact n) * (x\<^sup>2 / 2) ^ n)"
    by (intro gen) simp_all
  with eq show ?thesis by simp
qed

lemma summable_cdf_term: "summable (cdf_term x)"
proof (rule summable_comparison_test')
  show "summable (\<lambda>n. \<bar>x\<bar> * (inverse (fact n) * (x\<^sup>2 / 2) ^ n))"
    by (intro summable_mult summable_exp)
  show "norm (cdf_term x n) \<le> \<bar>x\<bar> * (inverse (fact n) * (x\<^sup>2 / 2) ^ n)" for n
    using cdf_term_abs_le [of x n] by simp
qed

lemma cdf_term_minus: "cdf_term (- x) n = - cdf_term x n"
  by (simp add: cdf_term_def)

lemma norm_cdf_minus: "norm_cdf (- x) = 1 - norm_cdf x"
proof -
  have "(\<Sum>n. cdf_term (- x) n) = - (\<Sum>n. cdf_term x n)"
    by (simp add: cdf_term_minus suminf_minus [OF summable_cdf_term])
  then show ?thesis
    by (simp add: norm_cdf_def field_simps)
qed

text \<open>The density is the derivative of the distribution function.\<close>

lemma norm_cdf_deriv: "(norm_cdf has_field_derivative norm_pdf x) (at x)"
proof -
  define c :: "nat \<Rightarrow> real" where
    "c = (\<lambda>k. if even k then 0
              else (- 1) ^ ((k - 1) div 2)
                     / (2 ^ ((k - 1) div 2) * fact ((k - 1) div 2) * real k))"
  have tm: "c k * y ^ k = (if even k then 0 else cdf_term y ((k - 1) div 2))" for k y
  proof (cases "even k")
    case True
    then show ?thesis by (simp add: c_def)
  next
    case False
    then obtain n where k: "k = 2 * n + 1"
      by (auto elim: oddE)
    show ?thesis
      by (simp add: k c_def cdf_term_def)
  qed
  have series: "(\<lambda>k. c k * y ^ k) sums (\<Sum>n. cdf_term y n)" for y
    unfolding tm by (rule sums_if' [OF summable_sums [OF summable_cdf_term]])
  then have summable: "summable (\<lambda>k. c k * y ^ k)" for y
    by (rule sums_summable)
  have eq: "(\<Sum>k. c k * y ^ k) = (\<Sum>n. cdf_term y n)" for y
    using series by (rule sums_unique [symmetric])
  have dterm: "diffs c k * x ^ k
      = (if even k then (- (x\<^sup>2) / 2) ^ (k div 2) /\<^sub>R fact (k div 2) else 0)" for k
  proof (cases "even k")
    case True
    then obtain n where k: "k = 2 * n"
      by (auto elim: evenE)
    have "(- (x\<^sup>2) / 2) ^ n = ((- 1) * (x\<^sup>2 / 2)) ^ n"
      by simp
    also have "\<dots> = (- 1) ^ n * (x\<^sup>2 / 2) ^ n"
      by (rule power_mult_distrib)
    finally have "(- (x\<^sup>2) / 2) ^ n = (- 1) ^ n * x ^ (2 * n) / 2 ^ n"
      by (simp add: power_divide power_mult)
    then show ?thesis
      by (simp add: k diffs_def c_def divide_simps del: of_nat_Suc)
  next
    case False
    then show ?thesis by (simp add: diffs_def c_def)
  qed
  have "(\<lambda>k. if even k then (- (x\<^sup>2) / 2) ^ (k div 2) /\<^sub>R fact (k div 2)
              else (\<lambda>n. 0 :: real) ((k - 1) div 2)) sums (0 + exp (- (x\<^sup>2) / 2))"
    by (rule sums_if [OF sums_zero exp_converges])
  then have "(\<lambda>k. diffs c k * x ^ k) sums exp (- (x\<^sup>2) / 2)"
    by (simp add: dterm)
  then have d: "(\<Sum>k. diffs c k * x ^ k) = exp (- (x\<^sup>2) / 2)"
    by (rule sums_unique [symmetric])
  have "((\<lambda>y. \<Sum>k. c k * y ^ k) has_field_derivative exp (- (x\<^sup>2) / 2)) (at x)"
    using termdiffs_strong_converges_everywhere [of c x, OF summable] by (simp add: d)
  then have "((\<lambda>y. \<Sum>n. cdf_term y n) has_field_derivative exp (- (x\<^sup>2) / 2)) (at x)"
    by (simp add: eq)
  then have "((\<lambda>y. (\<Sum>n. cdf_term y n) / sqrt (2 * pi))
      has_field_derivative exp (- (x\<^sup>2) / 2) / sqrt (2 * pi)) (at x)"
    by (rule DERIV_cdivide)
  from DERIV_add [OF DERIV_const [of "1 / 2"] this] show ?thesis
    by (simp add: norm_cdf_def [abs_def] norm_pdf_def)
qed

lemma norm_cdf_zero: "norm_cdf 0 = 1 / 2"
  by (simp add: norm_cdf_def cdf_term_def)

lemma norm_cdf_strict_mono:
  assumes "x < y"
  shows "norm_cdf x < norm_cdf y"
  using assms
proof (rule DERIV_pos_imp_increasing)
  show "\<exists>d. (norm_cdf has_real_derivative d) (at z) \<and> 0 < d" for z
    using norm_cdf_deriv [of z] by (auto simp: norm_pdf_def)
qed

subsection \<open>Numerical enclosures\<close>

text \<open>
  Alternating series whose terms decrease to zero lie between consecutive partial sums.
  This encloses \<open>pi\<close> (by Machin's formula), \<open>exp (- 1/20)\<close> and the values of
  \<open>norm_cdf\<close> needed for the reference scenario.
\<close>

lemma arctan_bracket:
  assumes "0 < x" "x \<le> 1"
  shows "(\<Sum>i<2*n. (- 1) ^ i * (1 / real (i * 2 + 1) * x ^ (i * 2 + 1))) \<le> arctan x"
    and "arctan x \<le> (\<Sum>i<2*n+1. (- 1) ^ i * (1 / real (i * 2 + 1) * x ^ (i * 2 + 1)))"
proof -
  have ax: "\<bar>x\<bar> \<le> 1" using assms by simp
  have "0 < 1 / real (0 * 2 + 1) * x ^ (0 * 2 + 1)" using assms by simp
  with summable_Leibniz(2) [OF zeroseq_arctan_series [OF ax] monoseq_arctan_series [OF ax]]
  have "(\<Sum>i. (- 1) ^ i * (1 / real (i * 2 + 1) * x ^ (i * 2 + 1)))
      \<in> {(\<Sum>i<2*n. (- 1) ^ i * (1 / real (i * 2 + 1) * x ^ (i * 2 + 1))) ..
          (\<Sum>i<2*n+1. (- 1) ^ i * (1 / real (i * 2 + 1) * x ^ (i * 2 + 1)))}"
    by blast
  then show "(\<Sum>i<2*n. (- 1) ^ i * (1 / real (i * 2 + 1) * x ^ (i * 2 + 1))) \<le> arctan x"
    and "arctan x \<le> (\<Sum>i<2*n+1. (- 1) ^ i * (1 / real (i * 2 + 1) * x ^ (i * 2 + 1)))"
    by (simp_all add: arctan_series [OF ax])
qed

lemma pi_lower: "3.141592 < pi"
proof -
  have "(\<Sum>i<2*3. (- 1) ^ i * (1 / real (i * 2 + 1) * (1/5) ^ (i * 2 + 1))) \<le> arctan (1/5)"
    by (rule arctan_bracket) simp_all
  then have a: "6679449362/33837890625 \<le> arctan (1/5)"
    by (simp add: lessThan_nat_numeral lessThan_Suc power_divide)
  have "arctan (1/239) \<le> (\<Sum>i<2*0+1. (- 1) ^ i * (1 / real (i * 2 + 1) * (1/239) ^ (i * 2 + 1)))"
    by (rule arctan_bracket) simp_all
  then have b: "arctan (1/239) \<le> 1/239"
    by simp
  have "pi = 4 * (4 * arctan (1/5) - arctan (1/239))"
    using machin by simp
  with a b show ?thesis
    by simp
qed

lemma pi_upper: "pi < 3.141593"
proof -
  have "arctan (1/5) \<le> (\<Sum>i<2*2+1. (- 1) ^ i * (1 / real (i * 2 + 1) * (1/5) ^ (i * 2 + 1)))"
    by (rule arctan_bracket) simp_all
  then have a: "arctan (1/5) \<le> 24288907/123046875"
    by (simp add: lessThan_nat_numeral lessThan_Suc power_divide)
  have "(\<Sum>i<2*1. (- 1) ^ i * (1 / real (i * 2 + 1) * (1/239) ^ (i * 2 + 1))) \<le> arctan (1/239)"
    by (rule arctan_bracket) simp_all
  then have b: "171362/40955757 \<le> arctan (1/239)"
    by (simp add: lessThan_nat_numeral lessThan_Suc power_divide)
  have "pi = 4 * (4 * arctan (1/5) - arctan (1/239))"
    using machin by simp
  with a b show ?thesis
    by simp
qed

lemma sqrt_two_pi_bounds: "2.506628 < sqrt (2 * pi)" "sqrt (2 * pi) < 2.506629"
proof -
  have "(2.506628::real)\<^sup>2 < 2 * pi"
    using pi_lower by (simp add: power2_eq_square)
  then show "2.506628 < sqrt (2 * pi)"
    by (rule real_less_rsqrt)
  have "2 * pi < (2.506629::real)\<^sup>2"
    using pi_upper by (simp add: power2_eq_square)
  then show "sqrt (2 * pi) < 2.506629"
    by (intro real_less_lsqrt) simp_all
qed

lemma exp_minus_bracket:
  fixes x :: real
  assumes "0 \<le> x" "x \<le> 1"
  shows "(\<Sum>i<2*n. (- 1) ^ i * (x ^ i / fact i)) \<le> exp (- x)"
    and "exp (- x) \<le> (\<Sum>i<2*n+1. (- 1) ^ i * (x ^ i / fact i))"
proof -
  have "summable (\<lambda>n. inverse (fact n) * x ^ n)"
    by (rule summable_exp)
  then have zero: "(\<lambda>n. x ^ n / fact n) \<longlonglongrightarrow> 0"
    using summable_LIMSEQ_zero by (fastforce simp: field_simps)
  have pos: "0 \<le> x ^ n / fact n" for n
    using assms by simp
  have mono: "x ^ Suc n / fact (Suc n) \<le> x ^ n / fact n" for n
  proof (rule frac_le)
    show "x ^ Suc n \<le> x ^ n"
      using assms by (simp add: mult_left_le_one_le)
    show "(fact n :: real) \<le> fact (Suc n)"
      by (simp add: fact_mono)
  qed (use assms in simp_all)
  have eq: "exp (- x) = (\<Sum>i. (- 1) ^ i * (x ^ i / fact i))"
    by (simp add: exp_def power_minus [of x] field_simps)
  show "(\<Sum>i<2*n. (- 1) ^ i * (x ^ i / fact i)) \<le> exp (- x)"
    unfolding eq by (rule summable_Leibniz'(2) [OF zero pos mono])
  show "exp (- x) \<le> (\<Sum>i<2*n+1. (- 1) ^ i * (x ^ i / fact i))"
    unfolding eq by (rule summable_Leibniz'(4) [OF zero pos mono])
qed

lemma exp_bounds: "0.9512294 < exp (- (1/20) :: real)" "exp (- (1/20) :: real) < 0.9512295"
proof -
  have "(\<Sum>i<2*3. (- 1) ^ i * ((1/20) ^ i / fact i)) \<le> exp (- (1/20) :: real)"
    by (rule exp_minus_bracket) simp_all
  then show "0.9512294 < exp (- (1/20) :: real)"
    by (simp add: lessThan_nat_numeral lessThan_Suc power_divide fact_numeral)
  have "exp (- (1/20) :: real) \<le> (\<Sum>i<2*2+1. (- 1) ^ i * ((1/20) ^ i / fact i))"
    by (rule exp_minus_bracket) simp_all
  then show "exp (- (1/20) :: real) < 0.9512295"
    by (simp add: lessThan_nat_numeral lessThan_Suc power_divide fact_numeral)
qed

lemma cdf_series_bracket:
  assumes "0 \<le> x" "x \<le> 1"
  shows "(\<Sum>i<2*n. cdf_term x i) \<le> (\<Sum>i. cdf_term x i)"
    and "(\<Sum>i. cdf_term x i) \<le> (\<Sum>i<2*n+1. cdf_term x i)"
proof -
  have eq: "cdf_term x = (\<lambda>i. (- 1) ^ i * cdf_abs_term x i)"
    by (simp add: cdf_term_def cdf_abs_term_def fun_eq_iff)
  have pos: "0 \<le> cdf_abs_term x n" for n
    using assms by (simp add: cdf_abs_term_def)
  have "(\<lambda>n. \<bar>cdf_term x n\<bar>) \<longlonglongrightarrow> 0"
    by (intro tendsto_rabs_zero summable_LIMSEQ_zero summable_cdf_term)
  then have zero: "cdf_abs_term x \<longlonglongrightarrow> 0"
    using pos by (simp add: eq abs_mult)
  have mono: "cdf_abs_term x (Suc n) \<le> cdf_abs_term x n" for n
    unfolding cdf_abs_term_def
  proof (rule frac_le)
    have "x ^ (2 * Suc n + 1) = x ^ (2 * n + 1) * (x * x)"
      by simp
    also have "\<dots> \<le> x ^ (2 * n + 1) * 1"
      using assms by (intro mult_left_mono mult_le_one) simp_all
    finally show "x ^ (2 * Suc n + 1) \<le> x ^ (2 * n + 1)"
      by simp
    show "2 ^ n * fact n * real (2 * n + 1) \<le> 2 ^ Suc n * fact (Suc n) * real (2 * Suc n + 1)"
      by (intro mult_mono) (simp_all add: fact_mono)
  qed (use assms in simp_all)
  show "(\<Sum>i<2*n. cdf_term x i) \<le> (\<Sum>i. cdf_term x i)"
    unfolding eq by (rule summable_Leibniz'(2) [OF zero pos mono])
  show "(\<Sum>i. cdf_term x i) \<le> (\<Sum>i<2*n+1. cdf_term x i)"
    unfolding eq by (rule summable_Leibniz'(4) [OF zero pos mono])
qed

lemma norm_cdf_035: "0.6368306 < norm_cdf (7/20)" "norm_cdf (7/20) < 0.6368307"
proof -
  let ?S = "\<Sum>i. cdf_term (7/20) i"
  have "(\<Sum>i<2*2. cdf_term (7/20) i) \<le> ?S"
    by (rule cdf_series_bracket) simp_all
  then have lo: "7024303237/20480000000 \<le> ?S"
    by (simp add: cdf_term_def lessThan_nat_numeral lessThan_Suc power_divide fact_numeral)
  have "?S \<le> (\<Sum>i<2*2+1. cdf_term (7/20) i)"
    by (rule cdf_series_bracket) simp_all
  then have hi: "?S \<le> 606899840030407/1769472000000000"
    by (simp add: cdf_term_def lessThan_nat_numeral lessThan_Suc power_divide fact_numeral)
  have "(7024303237/20480000000) / 2.506629 \<le> ?S / sqrt (2 * pi)"
    using lo sqrt_two_pi_bounds by (intro frac_le) simp_all
  then show "0.6368306 < norm_cdf (7/20)"
    by (simp add: norm_cdf_def)
  have "?S / sqrt (2 * pi) \<le> (606899840030407/1769472000000000) / 2.506628"
    using hi lo sqrt_two_pi_bounds by (intro frac_le) simp_all
  then show "norm_cdf (7/20) < 0.6368307"
    by (simp add: norm_cdf_def)
qed

lemma norm_cdf_015: "0.5596176 < norm_cdf (3/20)" "norm_cdf (3/20) < 0.5596178"
proof -
  let ?S = "\<Sum>i. cdf_term (3/20) i"
  have "(\<Sum>i<2*2. cdf_term (3/20) i) \<le> ?S"
    by (rule cdf_series_bracket) simp_all
  then have lo: "21423631431/143360000000 \<le> ?S"
    by (simp add: cdf_term_def lessThan_nat_numeral lessThan_Suc power_divide fact_numeral)
  have "?S \<le> (\<Sum>i<2*1+1. cdf_term (3/20) i)"
    by (rule cdf_series_bracket) simp_all
  then have hi: "?S \<le> 19128243/128000000"
    by (simp add: cdf_term_def lessThan_nat_numeral lessThan_Suc power_divide fact_numeral)
  have "(21423631431/143360000000) / 2.506629 \<le> ?S / sqrt (2 * pi)"
    using lo sqrt_two_pi_bounds by (intro frac_le) simp_all
  then show "0.5596176 < norm_cdf (3/20)"
    by (simp add: norm_cdf_def)
  have "?S / sqrt (2 * pi) \<le> (19128243/128000000) / 2.506628"
    using hi lo sqrt_two_pi_bounds by (intro frac_le) simp_all
  then show "norm_cdf (3/20) < 0.5596178"
    by (simp add: norm_cdf_def)
qed


section \<open>Floating-point arithmetic\<close>

text \<open>
  A result of magnitude at most \<open>10^300\<close> is below the overflow threshold, so on values of
  moderate size the operations are those of the reals.
\<close>

lemma float_overflow_large: "10 ^ 300 < float_overflow"
  by (simp add: float_overflow_def)

lemma float_overflow_pos: "0 < float_overflow"
  using float_overflow_large by (rule less_trans [rotated]) simp

lemma float_of_Fin: "\<bar>x\<bar> < float_overflow \<Longrightarrow> float_of x = Fin x"
  by (auto simp: float_of_def)

lemma float_of_small: "\<bar>x\<bar> \<le> 10 ^ 300 \<Longrightarrow> float_of x = Fin x"
  using float_overflow_large by (intro float_of_Fin) linarith

lemma float_of_cases: "float_of x = Fin x \<or> float_of x = PInf \<or> float_of x = NInf"
  by (simp add: float_of_def)

lemma float_of_tiny: "\<bar>x\<bar> \<le> 10 ^ 30 \<Longrightarrow> float_of x = Fin x"
  by (rule float_of_small) (simp add: order_trans)

lemma exp_le_pow3: "x \<le> 100 \<Longrightarrow> exp (x::real) \<le> 3 ^ 100"
proof -
  assume "x \<le> 100"
  then have "exp x \<le> exp (100 :: real)"
    by simp
  also have "\<dots> = exp 1 ^ 100"
    using exp_of_nat_mult [of 100 "1::real"] by simp
  also have "\<dots> \<le> 3 ^ 100"
    by (intro power_mono exp_le) simp
  finally show ?thesis .
qed

lemma float_of_exp: "x \<le> 100 \<Longrightarrow> float_of (exp x) = Fin (exp x)"
proof (rule float_of_small)
  assume "x \<le> 100"
  then have "exp x \<le> 3 ^ 100"
    by (rule exp_le_pow3)
  then show "\<bar>exp x\<bar> \<le> 10 ^ 300"
    by simp
qed

lemma exp_1000_overflows: "float_overflow \<le> exp (1000 :: real)"
proof -
  have "(5/2 :: real) \<le> exp 1"
    using exp_lower_Taylor_quadratic [of "1::real"] by simp
  then have "(5/2 :: real) ^ 1000 \<le> exp 1 ^ 1000"
    by (intro power_mono) simp_all
  also have "\<dots> = exp (1000 :: real)"
    using exp_of_nat_mult [of 1000 "1::real"] by simp
  finally have "(5/2 :: real) ^ 1000 \<le> exp 1000" .
  moreover have "(2::real) ^ 1024 \<le> (5/2) ^ 1000"
  proof -
    have "(2::real) ^ 1024 \<le> (2 ^ 5) ^ 250"
      by (simp add: power_mult [symmetric])
    also have "\<dots> \<le> ((5/2 :: real) ^ 4) ^ 250"
      by (intro power_mono) (simp_all add: power_divide)
    also have "\<dots> = (5/2 :: real) ^ 1000"
      by (simp add: power_mult [symmetric])
    finally show ?thesis .
  qed
  ultimately show ?thesis
    by (simp add: float_overflow_def)
qed

subsection \<open>Arithmetic on finite values\<close>

lemma fl_add_Fin: "\<bar>a + b\<bar> \<le> 10 ^ 30 \<Longrightarrow> fl_add (Fin a) (Fin b) = Fin (a + b)"
  by (simp add: float_of_tiny)

lemma fl_sub_Fin: "\<bar>a - b\<bar> \<le> 10 ^ 30 \<Longrightarrow> fl_sub (Fin a) (Fin b) = Fin (a - b)"
  by (simp add: fl_sub_def float_of_tiny)

lemma fl_mul_Fin: "\<bar>a * b\<bar> \<le> 10 ^ 30 \<Longrightarrow> fl_mul (Fin a) (Fin b) = Fin (a * b)"
  by (simp add: float_of_tiny)

lemma fl_div_Fin: "b \<noteq> 0 \<Longrightarrow> \<bar>a / b\<bar> \<le> 10 ^ 30 \<Longrightarrow> fl_div (Fin a) (Fin b) = Fin (a / b)"
  by (simp add: float_of_tiny)

lemma fl_pow_Fin: "\<bar>a ^ k\<bar> \<le> 10 ^ 30 \<Longrightarrow> fl_pow (Fin a) k = Fin (a ^ k)"
  by (cases k) (simp_all add: float_of_tiny)

lemma fl_exp_Fin: "x \<le> 100 \<Longrightarrow> fl_exp (Fin x) = Fin (exp x)"
  by (simp add: float_of_exp)

lemma py_max0_Fin: "py_max0 (Fin x) = Fin (max 0 x)"
  by (simp add: py_max0_def max_def)

lemma abs_le_tiny:
  fixes x :: real
  shows "\<bar>x\<bar> \<le> B \<Longrightarrow> B \<le> 10 ^ 30 \<Longrightarrow> \<bar>x\<bar> \<le> 10 ^ 30"
  by (rule order_trans)

lemma abs_mult_le:
  fixes a b :: real
  shows "\<bar>a\<bar> \<le> A \<Longrightarrow> \<bar>b\<bar> \<le> B \<Longrightarrow> \<bar>a * b\<bar> \<le> A * B"
  unfolding abs_mult by (rule mult_mono) simp_all

lemma abs_add_le:
  fixes a b :: real
  shows "\<bar>a\<bar> \<le> A \<Longrightarrow> \<bar>b\<bar> \<le> B \<Longrightarrow> \<bar>a + b\<bar> \<le> A + B"
  by linarith

lemma abs_diff_le:
  fixes a b :: real
  shows "\<bar>a\<bar> \<le> A \<Longrightarrow> \<bar>b\<bar> \<le> B \<Longrightarrow> \<bar>a - b\<bar> \<le> A + B"
  by linarith

lemma abs_power_le:
  fixes a :: real
  shows "\<bar>a\<bar> \<le> A \<Longrightarrow> \<bar>a ^ k\<bar> \<le> A ^ k"
  unfolding power_abs by (rule power_mono) simp_all


section \<open>The binomial tree\<close>

text \<open>\<open>max(0, x)\<close> is never negative and never \<open>nan\<close>.\<close>

lemma py_max0_nonneg: "fl_le (Fin 0) (py_max0 x)"
  by (cases x) (simp_all add: py_max0_def)

lemma exercise_value_nonneg: "fl_le (Fin 0) (exercise_value ot strike s)"
  by (simp add: exercise_value_def py_max0_nonneg)

lemma fl_less_dichotomy:
  "fl_le (Fin 0) e \<Longrightarrow> \<not> fl_less c e \<Longrightarrow> c = NaN \<or> fl_le (Fin 0) c"
  by (cases c; cases e) auto

lemma node_value_american_nonneg:
  "node_value True ot strike spot L i j next_row = NaN
   \<or> fl_le (Fin 0) (node_value True ot strike spot L i j next_row)"
  using exercise_value_nonneg [of ot strike "price_tree spot L i j"]
    fl_less_dichotomy [of "exercise_value ot strike (price_tree spot L i j)"
      "continuation_value L (next_row ! (j + 1)) (next_row ! j)"]
  by (auto simp: node_value_def Let_def)

lemma upt_3:
  "[0..<3] = [0, 1, 2]" "[0..<2] = [0, 1]" "[0..<Suc 0] = [0]" "[0..<Suc (Suc 0)] = [0, 1]"
  by (simp_all add: upt_rec)

lemma backward_induction_1:
  "backward_induction am ot K S L 1 [t] = [level_row am ot K S L 0 t, t]"
  by simp

lemma overflowing_lattice:
  "crr 1 (1/20) 1000 (Suc 0)
     = \<lparr>lat_u = PInf, lat_d = Fin 0, lat_p = Fin 0, lat_discount = Fin (exp (- (1/20)))\<rparr>"
proof -
  have dt: "fl_div (Fin 1) (Fin (real (Suc 0))) = Fin 1"
    by (simp add: float_of_tiny)
  have x: "fl_mul (Fin 1000) (fl_sqrt (Fin 1)) = Fin 1000"
    by (simp add: float_of_tiny)
  have u: "fl_exp (Fin 1000) = PInf"
    using exp_1000_overflows by (simp add: float_of_def)
  have g: "fl_exp (fl_mul (Fin (1/20)) (Fin 1)) = Fin (exp (1/20))"
    by (simp add: float_of_tiny float_of_exp)
  have c: "fl_exp (fl_mul (Fin (- (1/20))) (Fin 1)) = Fin (exp (- (1/20)))"
    by (simp add: float_of_tiny float_of_exp)
  have d: "fl_div (Fin 1) PInf = Fin 0"
    by simp
  have n: "fl_sub (Fin (exp (1/20))) (Fin 0) = Fin (exp (1/20))"
    using float_of_exp [of "1/20"] by (simp add: fl_sub_def)
  have e: "fl_sub PInf (Fin 0) = PInf"
    by (simp add: fl_sub_def)
  have p: "fl_div (Fin (exp (1/20))) PInf = Fin 0"
    by simp
  show ?thesis
    unfolding crr_def Let_def dt x u g c d n e p by simp
qed

text \<open>
  Where the lattice parameters and the node values are finite and of moderate size,
  nothing overflows and the tree is computed as over the reals.
\<close>

lemma price_tree_Fin:
  assumes "lat_u L = Fin u" "lat_d L = Fin d" "\<bar>u\<bar> \<le> 2" "\<bar>d\<bar> \<le> 1" "\<bar>spot\<bar> \<le> 10 ^ 6"
    and "j \<le> 10"
  shows "price_tree spot L i j = Fin (spot * u ^ j * d ^ (i - j))"
    and "\<bar>spot * u ^ j * d ^ (i - j)\<bar> \<le> 10 ^ 10"
proof -
  have "\<bar>u ^ j\<bar> \<le> 2 ^ j"
    using assms(3) by (rule abs_power_le)
  also have "(2::real) ^ j \<le> 2 ^ 10"
    using assms(6) by (intro power_increasing) simp_all
  finally have uj: "\<bar>u ^ j\<bar> \<le> 2 ^ 10" .
  have "\<bar>d ^ (i - j)\<bar> \<le> 1 ^ (i - j)"
    using assms(4) by (rule abs_power_le)
  then have dj: "\<bar>d ^ (i - j)\<bar> \<le> 1"
    by simp
  have su: "\<bar>spot * u ^ j\<bar> \<le> 10 ^ 6 * 2 ^ 10"
    using assms(5) uj by (rule abs_mult_le)
  have sud: "\<bar>spot * u ^ j * d ^ (i - j)\<bar> \<le> 10 ^ 6 * 2 ^ 10 * 1"
    using su dj by (rule abs_mult_le)
  have 1: "fl_pow (Fin u) j = Fin (u ^ j)"
    using uj by (intro fl_pow_Fin) simp
  have 2: "fl_pow (Fin d) (i - j) = Fin (d ^ (i - j))"
    using dj by (intro fl_pow_Fin) simp
  have 3: "fl_mul (Fin spot) (Fin (u ^ j)) = Fin (spot * u ^ j)"
    using su by (intro fl_mul_Fin) simp
  have 4: "fl_mul (Fin (spot * u ^ j)) (Fin (d ^ (i - j))) = Fin (spot * u ^ j * d ^ (i - j))"
    using sud by (intro fl_mul_Fin) simp
  show "price_tree spot L i j = Fin (spot * u ^ j * d ^ (i - j))"
    by (simp only: price_tree_def assms(1,2) 1 2 3 4)
  show "\<bar>spot * u ^ j * d ^ (i - j)\<bar> \<le> 10 ^ 10"
    using sud by simp
qed

lemma exercise_value_Fin:
  assumes "\<bar>s\<bar> \<le> 10 ^ 10" "\<bar>strike\<bar> \<le> 10 ^ 10"
  shows "exercise_value ot strike (Fin s)
           = Fin (if ot = ''call'' then max 0 (s - strike) else max 0 (strike - s))"
proof -
  have "\<bar>s - strike\<bar> \<le> 10 ^ 30" "\<bar>strike - s\<bar> \<le> 10 ^ 30"
    using assms by simp_all
  then show ?thesis
    by (simp add: exercise_value_def fl_sub_Fin py_max0_Fin)
qed

lemma continuation_value_Fin:
  assumes "lat_p L = Fin p" "lat_discount L = Fin c" "\<bar>p\<bar> \<le> 100" "\<bar>c\<bar> \<le> 1"
    and "\<bar>up\<bar> \<le> M" "\<bar>down\<bar> \<le> M" "M \<le> 10 ^ 20"
  shows "continuation_value L (Fin up) (Fin down) = Fin (c * (p * up + (1 - p) * down))"
    and "\<bar>c * (p * up + (1 - p) * down)\<bar> \<le> 201 * M"
proof -
  have M: "0 \<le> M"
    using assms(5) by linarith
  have a: "\<bar>p * up\<bar> \<le> 100 * M"
    using assms(3,5) by (rule abs_mult_le)
  have q: "\<bar>1 - p\<bar> \<le> 101"
    using assms(3) by linarith
  have b: "\<bar>(1 - p) * down\<bar> \<le> 101 * M"
    using q assms(6) by (rule abs_mult_le)
  have s: "\<bar>p * up + (1 - p) * down\<bar> \<le> 201 * M"
    using a b by linarith
  have "\<bar>c * (p * up + (1 - p) * down)\<bar> \<le> 1 * (201 * M)"
    using assms(4) s by (rule abs_mult_le)
  then show t: "\<bar>c * (p * up + (1 - p) * down)\<bar> \<le> 201 * M"
    by simp
  have 1: "fl_mul (Fin p) (Fin up) = Fin (p * up)"
    using a assms(7) by (intro fl_mul_Fin) simp
  have 2: "fl_sub (Fin 1) (Fin p) = Fin (1 - p)"
    using q by (intro fl_sub_Fin) simp
  have 3: "fl_mul (Fin (1 - p)) (Fin down) = Fin ((1 - p) * down)"
    using b assms(7) by (intro fl_mul_Fin) simp
  have 4: "fl_add (Fin (p * up)) (Fin ((1 - p) * down)) = Fin (p * up + (1 - p) * down)"
    using s assms(7) by (intro fl_add_Fin) simp
  have 5: "fl_mul (Fin c) (Fin (p * up + (1 - p) * down)) = Fin (c * (p * up + (1 - p) * down))"
    using t assms(7) by (intro fl_mul_Fin) simp
  show "continuation_value L (Fin up) (Fin down) = Fin (c * (p * up + (1 - p) * down))"
    by (simp only: continuation_value_def assms(1,2) 1 2 3 4 5)
qed

lemma backward_induction_2:
  "backward_induction am ot K S L 2 [t]
     = [level_row am ot K S L 0 (level_row am ot K S L 1 t), level_row am ot K S L 1 t, t]"
  by (simp add: numeral_2_eq_2)

lemma two_step_put:
  fixes L :: lattice and K u d p c :: real
  assumes L: "lat_u L = Fin u" "lat_d L = Fin d" "lat_p L = Fin p" "lat_discount L = Fin c"
    and ud: "u * d = 1" and d: "0 < d" "d < 1" and u: "1 < u" "u \<le> 2"
    and p: "1 < p" "p \<le> 100" and c: "0 < c" "c \<le> 1" and K: "0 < K" "K \<le> 1000"
  shows "option_tree True ''put'' K K L 2
           = [[Fin 0], [Fin (K - K * d), Fin 0], [Fin (K - K * d\<^sup>2), Fin 0, Fin 0]]"
    and "option_tree False ''put'' K K L 2
           = [[Fin (c * ((1 - p) * (c * ((1 - p) * (K - K * d\<^sup>2)))))],
              [Fin (c * ((1 - p) * (K - K * d\<^sup>2))), Fin 0],
              [Fin (K - K * d\<^sup>2), Fin 0, Fin 0]]"
proof -
  have bu: "\<bar>u\<bar> \<le> 2" and bd: "\<bar>d\<bar> \<le> 1" and bp: "\<bar>p\<bar> \<le> 100" and bc: "\<bar>c\<bar> \<le> 1"
    and bK: "\<bar>K\<bar> \<le> 10 ^ 6" and bK': "\<bar>K\<bar> \<le> 10 ^ 10"
    using u d p c K by simp_all
  have d2: "d\<^sup>2 < 1" using d by (simp add: power_less_one_iff)
  have d2': "0 < d\<^sup>2" using d by simp
  have u2: "1 < u\<^sup>2" using u by (simp add: power2_eq_square less_1_mult)
  have Kd2: "K * d\<^sup>2 < K" using d2 K by simp
  have Kd: "K * d < K" using d K by simp
  have Ku: "K < K * u" using u K by simp
  have Ku2: "K < K * u\<^sup>2" using u2 K by simp
  have Kud: "K * u * d = K" using ud by (simp add: mult.assoc)
  have ev: "exercise_value ''put'' K (price_tree K L i j) = Fin (max 0 (K - K * u ^ j * d ^ (i - j)))"
    if "j \<le> 10" for i j
    using price_tree_Fin [OF L(1,2) bu bd bK that, of i]
      exercise_value_Fin [of "K * u ^ j * d ^ (i - j)" K "''put''"] bK'
    by simp
  have "0 < K * d\<^sup>2" "0 < K * d"
    using K d d2' by simp_all
  then have t0: "\<bar>K - K * d\<^sup>2\<bar> \<le> 1000" and t1: "\<bar>K - K * d\<bar> \<le> 1000"
    using Kd2 Kd K by linarith+
  have M: "(1000::real) \<le> 10 ^ 20" "(201 * 1000 :: real) \<le> 10 ^ 20" "\<bar>0::real\<bar> \<le> 1000"
    "\<bar>0::real\<bar> \<le> 201 * 1000"
    by simp_all
  have t: "terminal_row ''put'' K K L 2 = [Fin (K - K * d\<^sup>2), Fin 0, Fin 0]"
    using Kd2 Ku2
    by (simp add: terminal_row_def upt_3 ev Kud del: upt_Suc)
  have c10: "continuation_value L (Fin 0) (Fin (K - K * d\<^sup>2)) = Fin (c * ((1 - p) * (K - K * d\<^sup>2)))"
    using continuation_value_Fin(1) [OF L(3,4) bp bc M(3) t0 M(1)] by simp
  have b10: "\<bar>c * ((1 - p) * (K - K * d\<^sup>2))\<bar> \<le> 201 * 1000"
    using continuation_value_Fin(2) [OF L(3,4) bp bc M(3) t0 M(1)] by simp
  have c11: "continuation_value L (Fin 0) (Fin 0) = Fin 0"
    using continuation_value_Fin(1) [OF L(3,4) bp bc M(3) M(3) M(1)] by simp
  have c00: "continuation_value L (Fin 0) (Fin (K - K * d)) = Fin (c * ((1 - p) * (K - K * d)))"
    using continuation_value_Fin(1) [OF L(3,4) bp bc M(3) t1 M(1)] by simp
  have e00: "continuation_value L (Fin 0) (Fin (c * ((1 - p) * (K - K * d\<^sup>2))))
      = Fin (c * ((1 - p) * (c * ((1 - p) * (K - K * d\<^sup>2)))))"
    using continuation_value_Fin(1) [OF L(3,4) bp bc M(4) b10 M(2)] by simp
  have neg: "c * ((1 - p) * (K - K * d\<^sup>2)) < 0"
    using c p Kd2 by (simp add: mult_less_0_iff zero_less_mult_iff)
  have negA: "c * ((1 - p) * (K - K * d)) < 0"
    using c p Kd by (simp add: mult_less_0_iff zero_less_mult_iff)
  have a1: "level_row True ''put'' K K L 1 [Fin (K - K * d\<^sup>2), Fin 0, Fin 0]
              = [Fin (K - K * d), Fin 0]"
    using neg Kd Ku
    by (simp add: level_row_def upt_3 node_value_def ev c10 c11 Let_def del: upt_Suc)
  have a0: "level_row True ''put'' K K L 0 [Fin (K - K * d), Fin 0] = [Fin 0]"
    using negA
    by (simp add: level_row_def upt_3 node_value_def ev c00 Let_def del: upt_Suc)
  show "option_tree True ''put'' K K L 2
           = [[Fin 0], [Fin (K - K * d), Fin 0], [Fin (K - K * d\<^sup>2), Fin 0, Fin 0]]"
    by (simp only: option_tree_def backward_induction_2 t a1 a0)
  have e1: "level_row False ''put'' K K L 1 [Fin (K - K * d\<^sup>2), Fin 0, Fin 0]
              = [Fin (c * ((1 - p) * (K - K * d\<^sup>2))), Fin 0]"
    by (simp add: level_row_def upt_3 node_value_def c10 c11 Let_def del: upt_Suc)
  have e0: "level_row False ''put'' K K L 0 [Fin (c * ((1 - p) * (K - K * d\<^sup>2))), Fin 0]
              = [Fin (c * ((1 - p) * (c * ((1 - p) * (K - K * d\<^sup>2)))))]"
    by (simp add: level_row_def upt_3 node_value_def e00 Let_def del: upt_Suc)
  show "option_tree False ''put'' K K L 2
           = [[Fin (c * ((1 - p) * (c * ((1 - p) * (K - K * d\<^sup>2)))))],
              [Fin (c * ((1 - p) * (K - K * d\<^sup>2))), Fin 0],
              [Fin (K - K * d\<^sup>2), Fin 0, Fin 0]]"
    by (simp only: option_tree_def backward_induction_2 t e1 e0)
qed

lemma one_step_put:
  fixes L :: lattice and K u d p c :: real
  assumes L: "lat_u L = Fin u" "lat_d L = Fin d" "lat_p L = Fin p" "lat_discount L = Fin c"
    and d: "0 < d" "d < 1" and u: "1 < u" "u \<le> 2"
    and p: "\<bar>p\<bar> \<le> 100" and c: "\<bar>c\<bar> \<le> 1" and K: "0 < K" "K \<le> 1000"
  shows "option_tree False ''put'' K K L (Suc 0)
           = [[Fin (c * ((1 - p) * (K - K * d)))], [Fin (K - K * d), Fin 0]]"
proof -
  have bu: "\<bar>u\<bar> \<le> 2" and bd: "\<bar>d\<bar> \<le> 1"
    and bK: "\<bar>K\<bar> \<le> 10 ^ 6" and bK': "\<bar>K\<bar> \<le> 10 ^ 10"
    using u d K by simp_all
  have Kd: "K * d < K" and Ku: "K < K * u"
    using d u K by simp_all
  have ev: "exercise_value ''put'' K (price_tree K L i j) = Fin (max 0 (K - K * u ^ j * d ^ (i - j)))"
    if "j \<le> 10" for i j
    using price_tree_Fin [OF L(1,2) bu bd bK that, of i]
      exercise_value_Fin [of "K * u ^ j * d ^ (i - j)" K "''put''"] bK'
    by simp
  have "0 < K * d"
    using K d by simp
  then have t1: "\<bar>K - K * d\<bar> \<le> 1000"
    using Kd K by linarith
  have M: "(1000::real) \<le> 10 ^ 20" "\<bar>0::real\<bar> \<le> 1000"
    by simp_all
  have t: "terminal_row ''put'' K K L (Suc 0) = [Fin (K - K * d), Fin 0]"
    using Kd Ku by (simp add: terminal_row_def upt_3 ev del: upt_Suc)
  have c00: "continuation_value L (Fin 0) (Fin (K - K * d)) = Fin (c * ((1 - p) * (K - K * d)))"
    using continuation_value_Fin(1) [OF L(3,4) p c M(2) t1 M(1)] by simp
  have e0: "level_row False ''put'' K K L 0 [Fin (K - K * d), Fin 0]
              = [Fin (c * ((1 - p) * (K - K * d)))]"
    by (simp add: level_row_def upt_3 node_value_def c00 Let_def del: upt_Suc)
  show ?thesis
    by (simp only: option_tree_def backward_induction_1 [unfolded One_nat_def] t e0)
qed


lemma exp_tenth_bounds: "11/10 \<le> exp (1/10 :: real)" "exp (1/10 :: real) \<le> 10/9"
proof -
  show "11/10 \<le> exp (1/10 :: real)"
    using exp_ge_add_one_self [of "1/10 :: real"] by simp
  have "9/10 \<le> exp (- (1/10) :: real)"
    using exp_ge_add_one_self [of "- (1/10) :: real"] by simp
  then have "9/10 * exp (1/10 :: real) \<le> exp (- (1/10) :: real) * exp (1/10)"
    by (intro mult_right_mono) simp_all
  also have "\<dots> = 1"
    by (simp add: exp_minus)
  finally show "exp (1/10 :: real) \<le> 10/9"
    by simp
qed

lemma exp_half_bounds: "3/2 \<le> exp (1/2 :: real)" "exp (1/2 :: real) \<le> 2"
proof -
  show "3/2 \<le> exp (1/2 :: real)"
    using exp_ge_add_one_self [of "1/2 :: real"] by simp
  have "exp (1/2 :: real) * exp (1/2) = exp 1"
    by (simp add: exp_add [symmetric])
  then have sq: "exp (1/2 :: real) * exp (1/2) \<le> 3"
    using exp_le by simp
  show "exp (1/2 :: real) \<le> 2"
  proof (rule ccontr)
    assume "\<not> exp (1/2 :: real) \<le> 2"
    then have "2 < exp (1/2 :: real)"
      by simp
    then have "2 * 2 < exp (1/2 :: real) * exp (1/2)"
      by (intro mult_strict_mono) simp_all
    with sq show False
      by simp
  qed
qed

text \<open>
  The lattice of steps of one year at \<open>r = 0.5\<close>, \<open>\<sigma> = 0.1\<close>: all four parameters are
  finite, and the risk-neutral probability is above \<open>2.8\<close>.
\<close>

lemma steep_parameters:
  fixes a b p c :: real
  defines "a \<equiv> exp (1/10)" and "b \<equiv> exp (1/2)" and "c \<equiv> exp (- (1/2))"
  defines "p \<equiv> (b - 1 / a) / (a - 1 / a)"
  shows "a * (1 / a) = 1" "0 < 1 / a" "1 / a < 1" "1 < a" "a \<le> 2"
    and "9/5 \<le> p - 1" "p \<le> 100" "0 < c" "c \<le> 1"
    and "1/3 \<le> c * c" and "17 \<le> 100 - 100 * (1 / a)\<^sup>2"
proof -
  have a: "11/10 \<le> a" "a \<le> 10/9"
    using exp_tenth_bounds by (simp_all add: a_def)
  have b: "3/2 \<le> b" "b \<le> 2"
    using exp_half_bounds by (simp_all add: b_def)
  have ia: "9/10 \<le> 1 / a" "1 / a \<le> 10/11"
    using a by (simp_all add: field_simps)
  show "a * (1 / a) = 1" "0 < 1 / a" "1 / a < 1" "1 < a" "a \<le> 2" "0 < c" "c \<le> 1"
    using a by (simp_all add: c_def)
  have den: "21/110 \<le> a - 1 / a" "a - 1 / a \<le> 19/90"
    using a ia by simp_all
  have "p - 1 = (b - a) / (a - 1 / a)"
    using den by (simp add: p_def field_simps)
  moreover have "(7/18) / (19/90) \<le> (b - a) / (a - 1 / a)"
    using a b den by (intro frac_le) simp_all
  moreover have "9/5 \<le> (7/18) / (19/90 :: real)"
    by simp
  ultimately show "9/5 \<le> p - 1"
    by (simp only: order_trans)
  have "(b - 1 / a) / (a - 1 / a) \<le> (11/10) / (21/110)"
    using a b ia den by (intro frac_le) simp_all
  then show "p \<le> 100"
    unfolding p_def by (rule order_trans) simp
  have "exp (1/2 :: real) * exp (1/2) = exp 1"
    by (simp add: exp_add [symmetric])
  then have "exp (1/2 :: real) * exp (1/2) \<le> 3"
    using exp_le by simp
  then have "1 / 3 \<le> 1 / (exp (1/2 :: real) * exp (1/2))"
    by (intro divide_left_mono) simp_all
  then show "1/3 \<le> c * c"
    by (simp add: c_def exp_minus inverse_eq_divide)
  have "(1 / a)\<^sup>2 \<le> (10/11)\<^sup>2"
    using ia a by (intro power_mono) simp_all
  then show "17 \<le> 100 - 100 * (1 / a)\<^sup>2"
    by (simp add: power2_eq_square)
qed

lemma steep_lattice:
  "crr 1 (1/2) (1/10) (Suc 0)
     = \<lparr>lat_u = Fin (exp (1/10)), lat_d = Fin (1 / exp (1/10)),
        lat_p = Fin ((exp (1/2) - 1 / exp (1/10)) / (exp (1/10) - 1 / exp (1/10))),
        lat_discount = Fin (exp (- (1/2)))\<rparr>"
  "crr 2 (1/2) (1/10) 2
     = \<lparr>lat_u = Fin (exp (1/10)), lat_d = Fin (1 / exp (1/10)),
        lat_p = Fin ((exp (1/2) - 1 / exp (1/10)) / (exp (1/10) - 1 / exp (1/10))),
        lat_discount = Fin (exp (- (1/2)))\<rparr>"
proof -
  define a :: real where "a = exp (1/10)"
  define b :: real where "b = exp (1/2)"
  note P = steep_parameters [folded a_def b_def]
  have b: "3/2 \<le> b" "b \<le> 2"
    using exp_half_bounds by (simp_all add: b_def)
  have dt1: "fl_div (Fin 1) (Fin (real (Suc 0))) = Fin 1"
    by (simp add: float_of_tiny)
  have dt2: "fl_div (Fin 2) (Fin (real 2)) = Fin 1"
    by (simp add: float_of_tiny)
  have x: "fl_mul (Fin (1/10)) (fl_sqrt (Fin 1)) = Fin (1/10)"
    by (simp add: float_of_tiny)
  have u: "fl_exp (Fin (1/10)) = Fin a"
    unfolding a_def by (rule fl_exp_Fin) simp
  have d: "fl_div (Fin 1) (Fin a) = Fin (1 / a)"
  proof (rule fl_div_Fin)
    show "a \<noteq> 0"
      using P(4) by simp
    have "\<bar>1 / a\<bar> \<le> 1"
      using P(2,3) by linarith
    then show "\<bar>1 / a\<bar> \<le> 10 ^ 30"
      by (rule abs_le_tiny) simp
  qed
  have g: "fl_exp (fl_mul (Fin (1/2)) (Fin 1)) = Fin b"
    by (simp add: float_of_tiny float_of_exp b_def)
  have "\<bar>b - 1 / a\<bar> \<le> 2"
    using b P(2,3) by linarith
  then have n: "fl_sub (Fin b) (Fin (1 / a)) = Fin (b - 1 / a)"
    by (intro fl_sub_Fin abs_le_tiny [where B = 2]) simp_all
  have "\<bar>a - 1 / a\<bar> \<le> 2"
    using P(2,3,4,5) by linarith
  then have m: "fl_sub (Fin a) (Fin (1 / a)) = Fin (a - 1 / a)"
    by (intro fl_sub_Fin abs_le_tiny [where B = 2]) simp_all
  have p: "fl_div (Fin (b - 1 / a)) (Fin (a - 1 / a)) = Fin ((b - 1 / a) / (a - 1 / a))"
  proof (rule fl_div_Fin)
    have "0 < a - 1 / a"
      using P(3,4) by linarith
    then show "a - 1 / a \<noteq> 0"
      by simp
    have "\<bar>(b - 1 / a) / (a - 1 / a)\<bar> \<le> 100"
      using P(6,7) by linarith
    then show "\<bar>(b - 1 / a) / (a - 1 / a)\<bar> \<le> 10 ^ 30"
      by (rule abs_le_tiny) simp
  qed
  have c: "fl_exp (fl_mul (Fin (- (1/2))) (Fin 1)) = Fin (exp (- (1/2)))"
    by (simp add: float_of_tiny float_of_exp)
  show "crr 1 (1/2) (1/10) (Suc 0)
     = \<lparr>lat_u = Fin (exp (1/10)), lat_d = Fin (1 / exp (1/10)),
        lat_p = Fin ((exp (1/2) - 1 / exp (1/10)) / (exp (1/10) - 1 / exp (1/10))),
        lat_discount = Fin (exp (- (1/2)))\<rparr>"
    unfolding a_def [symmetric] b_def [symmetric]
    by (simp only: crr_def Let_def dt1 x u d g n m p c)
  show "crr 2 (1/2) (1/10) 2
     = \<lparr>lat_u = Fin (exp (1/10)), lat_d = Fin (1 / exp (1/10)),
        lat_p = Fin ((exp (1/2) - 1 / exp (1/10)) / (exp (1/10) - 1 / exp (1/10))),
        lat_discount = Fin (exp (- (1/2)))\<rparr>"
    unfolding a_def [symmetric] b_def [symmetric]
    by (simp only: crr_def Let_def dt2 x u d g n m p c)
qed

subsection \<open>The shape of the tree and the sign of its nodes\<close>

lemma length_level_row [simp]: "length (level_row am ot strike spot L i next_row) = Suc i"
  by (simp add: level_row_def)

lemma length_terminal_row [simp]: "length (terminal_row ot strike spot L n) = Suc n"
  by (simp add: terminal_row_def)


text \<open>The tree has rows \<open>0..n\<close>, and row \<open>k\<close> has \<open>k + 1\<close> nodes.\<close>

lemma backward_induction_shape:
  "\<forall>k < length (r # rs). length ((r # rs) ! k) = Suc (i + k) \<Longrightarrow>
   length (backward_induction am ot strike spot L i (r # rs)) = i + length (r # rs)
   \<and> (\<forall>k < i + length (r # rs).
         length (backward_induction am ot strike spot L i (r # rs) ! k) = Suc k)"
proof (induction i arbitrary: r rs)
  case 0
  then show ?case by simp
next
  case (Suc i)
  have "\<forall>k < length (level_row am ot strike spot L i r # r # rs).
          length ((level_row am ot strike spot L i r # r # rs) ! k) = Suc (i + k)"
  proof (intro allI impI)
    fix k assume k: "k < length (level_row am ot strike spot L i r # r # rs)"
    show "length ((level_row am ot strike spot L i r # r # rs) ! k) = Suc (i + k)"
    proof (cases k)
      case 0
      then show ?thesis by simp
    next
      case (Suc k')
      with k Suc.prems show ?thesis by simp
    qed
  qed
  from Suc.IH [OF this] show ?case by simp
qed

lemma option_tree_shape:
  "length (option_tree am ot strike spot L n) = Suc n
   \<and> (\<forall>k \<le> n. length (option_tree am ot strike spot L n ! k) = Suc k)"
  using backward_induction_shape [of "terminal_row ot strike spot L n" "[]" n am ot strike spot L]
  by (simp add: option_tree_def less_Suc_eq_le)

lemma option_tree_root:
  "\<exists>v rest. option_tree am ot strike spot L n = [v] # rest"
proof -
  from option_tree_shape [of am ot strike spot L n]
  have len: "length (option_tree am ot strike spot L n) = Suc n"
    and row: "length (option_tree am ot strike spot L n ! 0) = Suc 0"
    by simp_all
  from len obtain r rest where t: "option_tree am ot strike spot L n = r # rest"
    by (cases "option_tree am ot strike spot L n") simp_all
  with row have "length r = Suc 0" by simp
  then obtain v where "r = [v]"
    by (cases r) simp_all
  with t show ?thesis by blast
qed


lemma bt_calculate_price_root:
  assumes "validate_inputs spot strike T r vol ot = Inr True" "1 \<le> bt_num_steps m"
    and "option_tree (bt_american m) (get_option_type ot) strike spot
           (crr T r vol (nat (bt_num_steps m))) (nat (bt_num_steps m)) = [v] # rest"
  shows "bt_calculate_price m spot strike T r vol ot = Inr v"
  using assms by (simp add: bt_calculate_price_def Let_def)

lemma level_row_american_nonneg:
  "x \<in> set (level_row True ot strike spot L i next_row) \<Longrightarrow> x = NaN \<or> fl_le (Fin 0) x"
proof -
  assume "x \<in> set (level_row True ot strike spot L i next_row)"
  then obtain j where "x = node_value True ot strike spot L i j next_row"
    by (auto simp: level_row_def simp del: upt_Suc)
  then show ?thesis
    using node_value_american_nonneg [of ot strike spot L i j next_row] by simp
qed

lemma terminal_row_nonneg: "x \<in> set (terminal_row ot strike spot L n) \<Longrightarrow> fl_le (Fin 0) x"
  by (auto simp: terminal_row_def exercise_value_nonneg simp del: upt_Suc)

lemma backward_induction_american_nonneg:
  "\<forall>row \<in> set (r # rs). \<forall>x \<in> set row. x = NaN \<or> fl_le (Fin 0) x \<Longrightarrow>
   \<forall>row \<in> set (backward_induction True ot strike spot L i (r # rs)).
      \<forall>x \<in> set row. x = NaN \<or> fl_le (Fin 0) x"
proof (induction i arbitrary: r rs)
  case 0
  then show ?case by simp
next
  case (Suc i)
  have "\<forall>row \<in> set (level_row True ot strike spot L i r # r # rs).
          \<forall>x \<in> set row. x = NaN \<or> fl_le (Fin 0) x"
    using Suc.prems level_row_american_nonneg by auto
  from Suc.IH [OF this] show ?case by simp
qed

lemma option_tree_american_nonneg:
  "row \<in> set (option_tree True ot strike spot L n) \<Longrightarrow> x \<in> set row \<Longrightarrow>
   x = NaN \<or> fl_le (Fin 0) x"
  using backward_induction_american_nonneg
    [of "terminal_row ot strike spot L n" "[]" ot strike spot L n] terminal_row_nonneg
  by (auto simp: option_tree_def)

text \<open>
  C3. The project's own checks state the claim (\<open>American option should be at least as
  valuable as European\<close>), and the code breaks it on a valid input. With two steps over
  two years, \<open>r = 0.5\<close> and \<open>\<sigma> = 0.1\<close> the risk-neutral probability exceeds \<open>1\<close>, which
  nothing in the code checks; every value of the computation is finite, and for the
  at-the-money put at \<open>100\<close> the American price is \<open>0\<close> while the European price is
  above \<open>10\<close>.
\<close>

theorem american_european_counterexample:
  "validate_inputs 100 100 2 (1/2) (1/10) ''put'' = Inr True
   \<and> bt_calculate_price \<lparr>bt_num_steps = 2, bt_american = True\<rparr> 100 100 2 (1/2) (1/10) ''put''
       = Inr (Fin 0)
   \<and> (\<exists>e. bt_calculate_price \<lparr>bt_num_steps = 2, bt_american = False\<rparr>
              100 100 2 (1/2) (1/10) ''put'' = Inr (Fin e)
          \<and> 10 < e)"
proof -
  define a :: real where "a = exp (1/10)"
  define c :: real where "c = exp (- (1/2))"
  define p :: real where "p = (exp (1/2) - 1 / a) / (a - 1 / a)"
  define L where "L = crr 2 (1/2) (1/10) 2"
  note P = steep_parameters [folded a_def c_def, folded p_def]
  have L: "lat_u L = Fin a" "lat_d L = Fin (1 / a)" "lat_p L = Fin p" "lat_discount L = Fin c"
    by (simp_all add: L_def steep_lattice a_def c_def p_def)
  have p1: "1 < p"
    using P(6) by simp
  note trees = two_step_put [OF L P(1,2,3,4,5) p1 P(7,8,9), of 100]
  have v: "validate_inputs 100 100 2 (1/2) (1/10) ''put'' = Inr True"
    by (simp add: validate_inputs_def lower_put)
  have A: "bt_calculate_price \<lparr>bt_num_steps = 2, bt_american = True\<rparr> 100 100 2 (1/2) (1/10) ''put''
             = Inr (Fin 0)"
    by (rule bt_calculate_price_root [OF v, where rest = "[[Fin (100 - 100 * (1 / a)), Fin 0],
          [Fin (100 - 100 * (1 / a)\<^sup>2), Fin 0, Fin 0]]"])
      (simp_all add: get_option_type_put lower_put trees(1) L_def [symmetric])
  have E: "bt_calculate_price \<lparr>bt_num_steps = 2, bt_american = False\<rparr> 100 100 2 (1/2) (1/10) ''put''
             = Inr (Fin (c * ((1 - p) * (c * ((1 - p) * (100 - 100 * (1 / a)\<^sup>2))))))"
    by (rule bt_calculate_price_root [OF v, where rest = "[[Fin (c * ((1 - p)
            * (100 - 100 * (1 / a)\<^sup>2))), Fin 0], [Fin (100 - 100 * (1 / a)\<^sup>2), Fin 0, Fin 0]]"])
      (simp_all add: get_option_type_put lower_put trees(2) L_def [symmetric])
  define q where "q = p - 1"
  define w where "w = 100 - 100 * (1 / a)\<^sup>2"
  have q: "9/5 \<le> q" and w: "17 \<le> w"
    using P(6,11) by (simp_all add: q_def w_def)
  have qq: "9/5 * (9/5) \<le> q * q"
    using q by (intro mult_mono) simp_all
  have cq: "1/3 * (9/5 * (9/5)) \<le> (c * c) * (q * q)"
    by (rule mult_mono [OF P(10) qq]) simp_all
  have "1/3 * (9/5 * (9/5)) * 17 \<le> (c * c) * (q * q) * w"
    by (rule mult_mono [OF cq w]) simp_all
  then have "10 < (c * c) * (q * q) * w"
    by simp
  also have "(c * c) * (q * q) * w = c * ((- q) * (c * ((- q) * w)))"
    by simp
  finally have "10 < c * ((1 - p) * (c * ((1 - p) * (100 - 100 * (1 / a)\<^sup>2))))"
    by (simp add: q_def w_def)
  with v A E show ?thesis
    by blast
qed

text \<open>
  The claim C10 as stated fails. With one step over one year at \<open>\<sigma> = 1000\<close>, a valid
  input, the up factor \<open>exp(1000)\<close> overflows to infinity, the down factor and the
  risk-neutral probability are \<open>0\<close>, the continuation value at the root is \<open>0 * inf\<close>, and
  since \<open>0 > nan\<close> is false the American call price returned is \<open>nan\<close>, which is not
  \<open>\<ge> 0\<close>.
\<close>

theorem american_nan_counterexample:
  "validate_inputs 100 100 1 (1/20) 1000 ''call'' = Inr True
   \<and> bt_calculate_price \<lparr>bt_num_steps = 1, bt_american = True\<rparr> 100 100 1 (1/20) 1000 ''call''
       = Inr NaN"
proof -
  define L where "L = crr 1 (1/20) 1000 (Suc 0)"
  have L: "L = \<lparr>lat_u = PInf, lat_d = Fin 0, lat_p = Fin 0, lat_discount = Fin (exp (- (1/20)))\<rparr>"
    unfolding L_def by (rule overflowing_lattice)
  have v: "validate_inputs 100 100 1 (1/20) 1000 ''call'' = Inr True"
    by (simp add: validate_inputs_def lower_call)
  have t: "terminal_row ''call'' 100 100 L (Suc 0) = [Fin 0, PInf]"
    by (simp add: terminal_row_def upt_3 exercise_value_def price_tree_def L
        float_of_tiny fl_sub_def py_max0_def signed_inf_def del: upt_Suc)
  have r: "level_row True ''call'' 100 100 L 0 [Fin 0, PInf] = [NaN]"
    by (simp add: level_row_def upt_3 node_value_def continuation_value_def exercise_value_def
        price_tree_def L float_of_tiny fl_sub_def py_max0_def signed_inf_def
        Let_def del: upt_Suc)
  have "option_tree True ''call'' 100 100 L (Suc 0) = [[NaN], [Fin 0, PInf]]"
    by (simp only: option_tree_def backward_induction_1 [unfolded One_nat_def] t r)
  then show ?thesis
    by (simp add: bt_calculate_price_def v get_option_type_call lower_call Let_def
        L_def [symmetric])
qed

text \<open>
  C10, amended. For valid parameters and \<open>n \<ge> 1\<close> steps the American pricer returns a
  price, and that price and every populated node of its option tree (rows \<open>0..n\<close>, row
  \<open>i\<close> with the nodes \<open>0..i\<close>) is either \<open>nan\<close> or \<open>\<ge> 0\<close>, never negative, whatever the
  risk-neutral probability is: the exercise value \<open>max(0, \<cdot>)\<close> is never negative and
  replaces every continuation value below it. The validated ranges do allow a
  probability outside \<open>[0, 1]\<close>: one step over one year at \<open>r = 0.5\<close>, \<open>\<sigma> = 0.1\<close> has
  \<open>p > 1\<close>, and there the European put at \<open>100\<close> has a negative price.
\<close>

theorem american_nonnegative:
  "(0 < spot \<and> 0 < strike \<and> 0 < T \<and> 0 < vol \<and> - 0.1 \<le> r \<and> r \<le> 0.5
      \<and> (lower ot = ''call'' \<or> lower ot = ''put'') \<and> 1 \<le> n \<longrightarrow>
     (\<exists>v. bt_calculate_price \<lparr>bt_num_steps = n, bt_american = True\<rparr> spot strike T r vol ot
            = Inr v \<and> (v = NaN \<or> fl_le (Fin 0) v))
     \<and> length (option_tree True (get_option_type ot) strike spot (crr T r vol (nat n)) (nat n))
         = nat n + 1
     \<and> (\<forall>i \<le> nat n.
           length (option_tree True (get_option_type ot) strike spot (crr T r vol (nat n)) (nat n)
                     ! i) = i + 1)
     \<and> (\<forall>row \<in> set (option_tree True (get_option_type ot) strike spot
                        (crr T r vol (nat n)) (nat n)).
           \<forall>x \<in> set row. x = NaN \<or> fl_le (Fin 0) x))
   \<and> validate_inputs 100 100 1 (1/2) (1/10) ''put'' = Inr True
   \<and> fl_less (Fin 1) (lat_p (crr 1 (1/2) (1/10) 1))
   \<and> (\<exists>v. bt_calculate_price \<lparr>bt_num_steps = 1, bt_american = False\<rparr>
              100 100 1 (1/2) (1/10) ''put'' = Inr (Fin v)
          \<and> v < 0)"
proof (intro conjI impI)
  assume a: "0 < spot \<and> 0 < strike \<and> 0 < T \<and> 0 < vol \<and> - 0.1 \<le> r \<and> r \<le> 0.5
      \<and> (lower ot = ''call'' \<or> lower ot = ''put'') \<and> 1 \<le> n"
  define tree where
    "tree = option_tree True (get_option_type ot) strike spot (crr T r vol (nat n)) (nat n)"
  have v: "validate_inputs spot strike T r vol ot = Inr True"
    using a by (intro validate_inputs_ok) simp_all
  obtain x rest where t: "tree = [x] # rest"
    unfolding tree_def using option_tree_root by blast
  then have "x = NaN \<or> fl_le (Fin 0) x"
    using option_tree_american_nonneg [of "[x]" "get_option_type ot" strike spot
        "crr T r vol (nat n)" "nat n" x]
    by (simp add: tree_def)
  moreover have "bt_calculate_price \<lparr>bt_num_steps = n, bt_american = True\<rparr> spot strike T r vol ot
            = Inr x"
    using a t by (intro bt_calculate_price_root [OF v]) (simp_all add: tree_def)
  ultimately show "\<exists>v. bt_calculate_price \<lparr>bt_num_steps = n, bt_american = True\<rparr>
                         spot strike T r vol ot = Inr v \<and> (v = NaN \<or> fl_le (Fin 0) v)"
    by blast
  show "length tree = nat n + 1"
    unfolding tree_def using option_tree_shape by simp
  show "\<forall>i \<le> nat n. length (tree ! i) = i + 1"
    unfolding tree_def using option_tree_shape by simp
  show "\<forall>row \<in> set tree. \<forall>x \<in> set row. x = NaN \<or> fl_le (Fin 0) x"
    unfolding tree_def using option_tree_american_nonneg by blast
next
  show v: "validate_inputs 100 100 1 (1/2) (1/10) ''put'' = Inr True"
    by (simp add: validate_inputs_def lower_put)
  define a :: real where "a = exp (1/10)"
  define c :: real where "c = exp (- (1/2))"
  define p :: real where "p = (exp (1/2) - 1 / a) / (a - 1 / a)"
  define L where "L = crr 1 (1/2) (1/10) (Suc 0)"
  note P = steep_parameters [folded a_def c_def, folded p_def]
  have L: "lat_u L = Fin a" "lat_d L = Fin (1 / a)" "lat_p L = Fin p" "lat_discount L = Fin c"
    by (simp_all add: L_def steep_lattice a_def c_def p_def)
  have p1: "1 < p" and pb: "\<bar>p\<bar> \<le> 100" and cb: "\<bar>c\<bar> \<le> 1"
    using P(6,7,8,9) by simp_all
  show "fl_less (Fin 1) (lat_p (crr 1 (1/2) (1/10) 1))"
    using p1 L(3) by (simp add: L_def)
  have tree: "option_tree (bt_american \<lparr>bt_num_steps = 1, bt_american = False\<rparr>)
        (get_option_type ''put'') 100 100
        (crr 1 (1/2) (1/10) (nat (bt_num_steps \<lparr>bt_num_steps = 1, bt_american = False\<rparr>)))
        (nat (bt_num_steps \<lparr>bt_num_steps = 1, bt_american = False\<rparr>))
      = [Fin (c * ((1 - p) * (100 - 100 * (1 / a))))] # [[Fin (100 - 100 * (1 / a)), Fin 0]]"
    using one_step_put [OF L P(2,3,4,5) pb cb, of 100]
    by (simp add: L_def get_option_type_put lower_put)
  have E: "bt_calculate_price \<lparr>bt_num_steps = 1, bt_american = False\<rparr> 100 100 1 (1/2) (1/10) ''put''
             = Inr (Fin (c * ((1 - p) * (100 - 100 * (1 / a)))))"
    by (rule bt_calculate_price_root [OF v _ tree]) simp
  have "0 < 100 - 100 * (1 / a)"
    using P(3) by simp
  then have "c * ((1 - p) * (100 - 100 * (1 / a))) < 0"
    using P(8) p1 by (simp add: mult_less_0_iff zero_less_mult_iff)
  with E show "\<exists>v. bt_calculate_price \<lparr>bt_num_steps = 1, bt_american = False\<rparr>
              100 100 1 (1/2) (1/10) ''put'' = Inr (Fin v) \<and> v < 0"
    by blast
qed

theorem american_nonnegative_witness:
  "(\<exists>v. bt_calculate_price \<lparr>bt_num_steps = 1, bt_american = True\<rparr> 100 100 1 (1/2) (1/10) ''put''
           = Inr v \<and> (v = NaN \<or> fl_le (Fin 0) v))
   \<and> list_all (list_all (\<lambda>x. x = NaN \<or> fl_le (Fin 0) x))
        (option_tree True ''put'' 100 100 (crr 1 (1/2) (1/10) 1) 1)
   \<and> fl_less (Fin 1) (lat_p (crr 1 (1/2) (1/10) 1))"
  using american_nonnegative [of 100 100 1 "1/10" "1/2" "''put''" 1]
  by (simp add: lower_put get_option_type_put list_all_iff)

section \<open>Option strategies\<close>

lemma list_max_eq: "xs \<noteq> [] \<Longrightarrow> list_max xs = Inr (Max (set xs))"
  by (cases xs) (simp_all add: list_max_def Max.set_eq_fold [symmetric])

lemma list_min_eq: "xs \<noteq> [] \<Longrightarrow> list_min xs = Inr (Min (set xs))"
  by (cases xs) (simp_all add: list_min_def Min.set_eq_fold [symmetric])

lemma length_linspace [simp]: "length (linspace start stop num) = num"
  by (simp add: linspace_def)

lemma linspace_nonempty: "0 < num \<Longrightarrow> linspace start stop num \<noteq> []"
  using length_linspace [of start stop num] by (cases "linspace start stop num") simp_all

lemma nth_linspace:
  "i < num \<Longrightarrow> linspace start stop num ! i = start + real i * ((stop - start) / real (num - 1))"
  by (simp add: linspace_def)

lemma linspace_first: "0 < num \<Longrightarrow> linspace start stop num ! 0 = start"
  by (simp add: nth_linspace)

lemma linspace_last: "2 \<le> num \<Longrightarrow> linspace start stop num ! (num - 1) = stop"
  by (simp add: nth_linspace)

lemma linspace_bounds:
  assumes "start \<le> stop" "2 \<le> num" "x \<in> set (linspace start stop num)"
  shows "start \<le> x" "x \<le> stop"
proof -
  from assms(3) obtain i where i: "i < num" and x: "x = linspace start stop num ! i"
    by (auto simp: in_set_conv_nth)
  define t where "t = real i / real (num - 1)"
  have t: "0 \<le> t" "t \<le> 1"
    using i assms(2) by (simp_all add: t_def)
  have xt: "x = start + t * (stop - start)"
    using i by (simp add: x nth_linspace t_def)
  show "start \<le> x"
    unfolding xt using t assms(1) by simp
  have "t * (stop - start) \<le> 1 * (stop - start)"
    using t assms(1) by (intro mult_right_mono) simp_all
  then show "x \<le> stop"
    unfolding xt by simp
qed

lemma get_analysis_range_eq:
  assumes "strat_legs s \<noteq> []"
  shows "get_analysis_range s =
     (let strikes = map leg_strike (strat_legs s);
          lo = Min (set strikes);
          hi = Max (set strikes)
      in Inr (linspace (max (lo - (hi - lo) / 2) (1/100)) (hi + (hi - lo) / 2) 1000))"
  using assms by (simp add: get_analysis_range_def list_min_eq list_max_eq Let_def)

lemma calculate_payoff_nonempty:
  "spot_range \<noteq> [] \<Longrightarrow> calculate_payoff s spot_range \<noteq> []"
  by (simp add: calculate_payoff_def)


lemma wide_strangle_payoff:
  "calculate_payoff wide_strangle xs = map (\<lambda>x. 2 * max (10 - x) 0 + max (x - 40) 0) xs"
  by (simp add: calculate_payoff_def wide_strangle_def payoff_def)

lemma wide_strangle_range:
  "get_analysis_range wide_strangle = Inr (linspace (1/100) 55 1000)"
  by (simp add: get_analysis_range_eq wide_strangle_def)

lemma wide_strangle_spec_range:
  "spec_analysis_range wide_strangle = Inr (linspace 5 60 1000)"
  by (simp add: spec_analysis_range_def wide_strangle_def list_min_eq list_max_eq)




subsection \<open>Break-even points\<close>

lemma upt_shift: "[0..<Suc n] = 0 # map Suc [0..<n]"
  by (simp add: upt_conv_Cons map_Suc_upt del: upt_Suc)

lemma crossings_scan:
  "length ps = length xs \<Longrightarrow>
   crossings xs ps
     = map (crossing_point xs ps) (filter (\<lambda>i. ps ! i * ps ! (i + 1) < 0) [0..<length ps - 1])"
proof (induction xs ps rule: crossings.induct)
  case (1 x0 x1 xs p0 p1 ps)
  have len: "length (p1 # ps) = length (x1 # xs)"
    using "1.prems" by simp
  have shift: "[0..<length (p0 # p1 # ps) - 1] = 0 # map Suc [0..<length (p1 # ps) - 1]"
    using upt_shift [of "length ps"] by simp
  have tail: "map (crossing_point (x0 # x1 # xs) (p0 # p1 # ps))
                (filter (\<lambda>i. (p0 # p1 # ps) ! i * (p0 # p1 # ps) ! (i + 1) < 0)
                   (map Suc [0..<length (p1 # ps) - 1]))
              = map (crossing_point (x1 # xs) (p1 # ps))
                (filter (\<lambda>i. (p1 # ps) ! i * (p1 # ps) ! (i + 1) < 0) [0..<length (p1 # ps) - 1])"
    by (simp add: filter_map comp_def crossing_point_def)
  have head: "crossing_point (x0 # x1 # xs) (p0 # p1 # ps) 0 = x0 - p0 * (x1 - x0) / (p1 - p0)"
    by (simp add: crossing_point_def)
  show ?case
  proof (cases "p0 * p1 < 0")
    case True
    then have "crossings (x0 # x1 # xs) (p0 # p1 # ps)
        = (x0 - p0 * (x1 - x0) / (p1 - p0)) # crossings (x1 # xs) (p1 # ps)"
      by simp
    also have "crossings (x1 # xs) (p1 # ps)
        = map (crossing_point (x1 # xs) (p1 # ps))
            (filter (\<lambda>i. (p1 # ps) ! i * (p1 # ps) ! (i + 1) < 0) [0..<length (p1 # ps) - 1])"
      using "1.IH"(1) [OF True len] .
    finally show ?thesis
      unfolding shift using True tail head by simp
  next
    case False
    then have "crossings (x0 # x1 # xs) (p0 # p1 # ps) = crossings (x1 # xs) (p1 # ps)"
      by simp
    also have "crossings (x1 # xs) (p1 # ps)
        = map (crossing_point (x1 # xs) (p1 # ps))
            (filter (\<lambda>i. (p1 # ps) ! i * (p1 # ps) ! (i + 1) < 0) [0..<length (p1 # ps) - 1])"
      using "1.IH"(2) [OF False len] .
    finally show ?thesis
      unfolding shift using False tail by simp
  qed
qed simp_all


lemma payoff_single: "calculate_payoff s [x] = [\<Sum>leg\<leftarrow>strat_legs s. payoff leg x]"
  by (simp add: calculate_payoff_def)

lemma nth_calculate_payoff:
  "i < length xs \<Longrightarrow> calculate_payoff s xs ! i = (\<Sum>leg\<leftarrow>strat_legs s. payoff leg (xs ! i))"
  by (simp add: calculate_payoff_def)

lemma length_calculate_payoff [simp]: "length (calculate_payoff s xs) = length xs"
  by (simp add: calculate_payoff_def)


lemma break_even_points_eq:
  assumes "get_analysis_range s = Inr spot_range" "length spot_range = 1000"
  shows "break_even_points s
     = Inr (map (crossing_point spot_range (calculate_payoff s spot_range))
              (filter (\<lambda>i. calculate_payoff s spot_range ! i
                              * calculate_payoff s spot_range ! (i + 1) < 0) [0..<999]))"
  using assms crossings_scan [of "calculate_payoff s spot_range" spot_range]
  by (simp add: break_even_points_def)

lemma cheap_call_spread_payoff:
  "calculate_payoff cheap_call_spread xs
     = map (\<lambda>x. (max (x - 100) 0 - 3 / 100) + (0 - max (x - 200) 0)) xs"
  by (simp add: calculate_payoff_def cheap_call_spread_def payoff_def)

lemma cheap_call_spread_range:
  "get_analysis_range cheap_call_spread = Inr (linspace 50 250 1000)"
  by (simp add: get_analysis_range_eq cheap_call_spread_def)

text \<open>
  C6. The accuracy bound of the claim, \<open>|calculate_payoff([be])| < 0.01\<close> at every
  returned break-even point, is what the docstring (\<open>where payoff = 0\<close>), the comment
  (\<open>find exact break-even\<close>) and the project's own test of break-even accuracy state.
  The code breaks it where the bracketing samples straddle a kink of the payoff. For the
  call spread long the \<open>100\<close> call at a premium of \<open>0.03\<close> and short the \<open>200\<close> call,
  the samples \<open>249\<close> and \<open>250\<close> of the range \<open>[50, 250]\<close> bracket the strike \<open>100\<close>;
  the interpolated break-even point \<open>832249 / 8325\<close> (about \<open>99.97\<close>) is returned, it lies
  below the strike, and the payoff there is \<open>-0.03\<close>.
\<close>

theorem break_even_accuracy_counterexample:
  "\<not> isl (break_even_points cheap_call_spread)
   \<and> 832249 / 8325 \<in> set (projr (break_even_points cheap_call_spread))
   \<and> calculate_payoff cheap_call_spread [832249 / 8325] = [- (3 / 100)]"
proof -
  define xs where "xs = linspace 50 250 1000"
  define ps where "ps = calculate_payoff cheap_call_spread xs"
  have x249: "xs ! 249 = 33250 / 333" and x250: "xs ! 250 = 99950 / 999"
    by (simp_all add: xs_def nth_linspace)
  have len: "length xs = 1000"
    by (simp add: xs_def)
  have p249: "ps ! 249 = - (3 / 100)" and p250: "ps ! 250 = 2003 / 99900"
    unfolding ps_def cheap_call_spread_payoff using len by (simp_all add: x249 x250)
  have cp: "crossing_point xs ps 249 = 832249 / 8325"
    by (simp add: crossing_point_def x249 x250 p249 p250)
  have "249 \<in> set (filter (\<lambda>i. ps ! i * ps ! (i + 1) < 0) [0..<999])"
    by (simp add: p249 p250)
  then have "crossing_point xs ps 249
      \<in> set (map (crossing_point xs ps) (filter (\<lambda>i. ps ! i * ps ! (i + 1) < 0) [0..<999]))"
    unfolding set_map by (rule imageI)
  moreover have "break_even_points cheap_call_spread
      = Inr (map (crossing_point xs ps) (filter (\<lambda>i. ps ! i * ps ! (i + 1) < 0) [0..<999]))"
    unfolding ps_def
    by (rule break_even_points_eq) (simp_all add: xs_def cheap_call_spread_range)
  ultimately have "\<not> isl (break_even_points cheap_call_spread)"
    and "832249 / 8325 \<in> set (projr (break_even_points cheap_call_spread))"
    by (simp_all add: cp del: set_filter set_map)
  moreover have "calculate_payoff cheap_call_spread [832249 / 8325] = [- (3 / 100)]"
    by (simp add: cheap_call_spread_payoff)
  ultimately show ?thesis
    by blast
qed


end
